theory Spec2Isabelle
  imports Complex_Main
begin

section \<open>Numeric model\<close>

text \<open>
  The analysis computes in C++ \<^verbatim>\<open>double\<close>. Finite doubles are modelled as real numbers with
  exact arithmetic: rounding, overflow and underflow are not part of the model. The one
  operation of the embedded functions that yields a non-number from finite arguments,
  \<^verbatim>\<open>std::sqrt\<close> of a negative value, is explicit: a computed component is either a number
  or \<open>NaN\<close>. Every division of the embedded code is written with its guard, since
  \<open>x / 0 = 0\<close> in HOL and not in C++.
\<close>

datatype fp = Num real | NaN

definition std_sqrt :: "real \<Rightarrow> fp" where
  "std_sqrt x = (if x < 0 then NaN else Num (sqrt x))"

text \<open>Arithmetic on a possibly-NaN operand: NaN propagates.\<close>

definition fp_map :: "(real \<Rightarrow> real) \<Rightarrow> fp \<Rightarrow> fp" where
  "fp_map f v = (case v of NaN \<Rightarrow> NaN | Num r \<Rightarrow> Num (f r))"

section \<open>Diagnostics\<close>

text \<open>
  \<^verbatim>\<open>LOGP(severity, ...)\<close> writes a log line and returns; neither \<^verbatim>\<open>warn\<close> nor
  \<^verbatim>\<open>error\<close> ends the process. A function that logs returns its log lines with its
  result; the formatted values are left out of the message.
\<close>

datatype severity = warn | error

datatype log_line = LOGP severity string

section \<open>Three-vectors\<close>

record 'c TVector3 =
  X :: 'c
  Y :: 'c
  Z :: 'c

definition SetXYZ :: "'c \<Rightarrow> 'c \<Rightarrow> 'c \<Rightarrow> 'c TVector3" where
  "SetXYZ x y z = \<lparr>X = x, Y = y, Z = z\<rparr>"

section \<open>getPerpendicularAxis\<close>

text \<open>The coefficients of the general case, lines 327 to 331 of the source.\<close>

definition quad_a :: "real TVector3 \<Rightarrow> real" where
  "quad_a p = X p * X p + Y p * Y p"

definition quad_b :: "real TVector3 \<Rightarrow> real" where
  "quad_b p = 2 * X p * (Z p * Z p)"

definition quad_c :: "real TVector3 \<Rightarrow> real" where
  "quad_c p = (Z p * Z p) * (Z p * Z p) - (Y p * Y p) * (Y p * Y p) - (X p * X p) * (Y p * Y p)"

definition quad_delta :: "real TVector3 \<Rightarrow> real" where
  "quad_delta p = quad_b p * quad_b p - 4 * quad_a p * quad_c p"

text \<open>
  The output parameter \<^verbatim>\<open>u\<close> is assigned on every path, so the model returns it, together
  with the log lines written.
\<close>

definition getPerpendicularAxis :: "real TVector3 \<Rightarrow> real \<Rightarrow> fp TVector3 \<times> log_line list" where
  "getPerpendicularAxis p sign =
    (let px = X p; py = Y p; pz = Z p;
         px2 = px * px; py2 = py * py; pz2 = pz * pz; pz4 = pz2 * pz2
     in
       if px = 0 \<and> py = 0 then (SetXYZ (Num 0) (Num 0) (Num 0), [])
       else if px = 0 \<and> py \<noteq> 0 then
         (let ux = fp_map (\<lambda>r. sign * r) (std_sqrt (py2 - pz4 / py2));
              uy = - pz2 / py
          in (SetXYZ ux (Num uy) (Num pz), []))
       else if py = 0 \<and> px \<noteq> 0 then
         (let ux = - pz2 / px;
              uy = fp_map (\<lambda>r. sign * r) (std_sqrt (px2 - pz4 / px2))
          in (SetXYZ (Num ux) uy (Num pz), []))
       else
         (let a = quad_a p; b = quad_b p; c = quad_c p;
              delta = quad_delta p
          in
            if delta < 0 \<or> a = 0 then
              (SetXYZ (Num 0) (Num 0) (Num 0),
               [LOGP warn ''Invalid input in getPerpendicularAxis: delta = {}, a = {}''])
            else
              (let ux = fp_map (\<lambda>r. (- b + sign * r) / (2 * a)) (std_sqrt delta);
                   uy = fp_map (\<lambda>r. (- pz2 - px * r) / py) ux
               in (SetXYZ ux uy (Num pz), []))))"

text \<open>
  The transverse components of a computed axis, when both are numbers, and the relation
  "is a negative scalar multiple of" between two transverse vectors, written so that it
  can be evaluated: \<open>u = k \<cdot> v\<close> for some \<open>k < 0\<close> holds exactly when both are zero, or
  the cross product vanishes and the dot product is negative (lemma \<open>anti_parallel_iff\<close>).
\<close>

definition transverse :: "fp TVector3 \<Rightarrow> (real \<times> real) option" where
  "transverse u = (case X u of NaN \<Rightarrow> None
                   | Num x \<Rightarrow> (case Y u of NaN \<Rightarrow> None | Num y \<Rightarrow> Some (x, y)))"

definition anti_parallel :: "real \<times> real \<Rightarrow> real \<times> real \<Rightarrow> bool" where
  "anti_parallel u v =
     ((u = (0, 0) \<and> v = (0, 0))
      \<or> (fst u * snd v - snd u * fst v = 0 \<and> fst u * fst v + snd u * snd v < 0))"

section \<open>getDeltaPhi\<close>

text \<open>
  Modelled from the spec: the constants \<^verbatim>\<open>PI\<close> and \<^verbatim>\<open>TwoPI\<close> of
  \<^verbatim>\<open>o2::constants::math\<close> and the library function \<^verbatim>\<open>TVector2::Phi_0_2pi\<close> are
  used by the source and declared outside it. The constants are \<open>\<pi>\<close> and \<open>2\<pi>\<close>;
  \<^verbatim>\<open>Phi_0_2pi\<close> brings an angle into \<open>[0, 2\<pi>)\<close> by a whole number of turns
  ("normalize both angles into [0, 2\<pi>)").
\<close>

definition PI :: real where
  "PI = pi"

definition TwoPI :: real where
  "TwoPI = 2 * pi"

definition Phi_0_2pi :: "real \<Rightarrow> real" where
  "Phi_0_2pi x = x - TwoPI * of_int \<lfloor>x / TwoPI\<rfloor>"

text \<open>
  The source assigns \<^verbatim>\<open>deltaPhi\<close> in two successive conditionals, lines 351 to 354; the
  model keeps both.
\<close>

definition getDeltaPhi :: "real \<Rightarrow> real \<Rightarrow> real" where
  "getDeltaPhi a1 a2 =
    (let deltaPhi0 = 0;
         phi1 = Phi_0_2pi a1;
         phi2 = Phi_0_2pi a2;
         diff = \<bar>phi1 - phi2\<bar>;
         deltaPhi1 = (if diff \<le> PI then diff else deltaPhi0);
         deltaPhi2 = (if diff > PI then TwoPI - diff else deltaPhi1)
     in deltaPhi2)"

text \<open>
  The reduction as the specification words it: normalize both angles, take the absolute
  difference, return \<open>2\<pi> - difference\<close> if the difference exceeds \<open>\<pi>\<close>, else the
  difference.
\<close>

definition AngularMetric_spec :: "real \<Rightarrow> real \<Rightarrow> real" where
  "AngularMetric_spec a b =
    (let d = \<bar>Phi_0_2pi a - Phi_0_2pi b\<bar>
     in if d > pi then 2 * pi - d else d)"

section \<open>getCorrectedPt\<close>

text \<open>
  Modelled from the spec: the histogram classes \<^verbatim>\<open>TAxis\<close>, \<^verbatim>\<open>TH1D\<close> and \<^verbatim>\<open>TH2\<close> belong
  to the histogram library and are not in the source. The calibration response is "a
  nullable 2D histogram object (reconstructed-value bin \<open>\<times>\<close> correction-offset bin, with
  per-bin counts)"; a histogram is described by the methods that \<^verbatim>\<open>getCorrectedPt\<close>
  calls on it. The axis has \<open>fNbins\<close> bins of equal width on \<open>[fXmin, fXmax)\<close>, numbered
  from 1; \<^verbatim>\<open>FindBin\<close> answers \<open>0\<close> below the range and \<open>fNbins + 1\<close> at or above its upper
  edge. In range the quotient is not negative, so the conversion to \<^verbatim>\<open>int\<close> is the floor,
  and \<open>fXmin < fXmax\<close>, so the division is by a non-zero number.
\<close>

record TAxis =
  fNbins :: int
  fXmin :: real
  fXmax :: real

definition FindBin :: "TAxis \<Rightarrow> real \<Rightarrow> int" where
  "FindBin ax x =
    (if x < fXmin ax then 0
     else if \<not> (x < fXmax ax) then fNbins ax + 1
     else 1 + \<lfloor>of_int (fNbins ax) * (x - fXmin ax) / (fXmax ax - fXmin ax)\<rfloor>)"

text \<open>
  \<^verbatim>\<open>GetRandom\<close> draws from the shared pseudo-random generator: it takes the generator's
  state and returns the sample with the new state.
\<close>

record 'g TH1D =
  GetEntries :: real
  GetRandom :: "'g \<Rightarrow> real \<times> 'g"

record 'g TH2 =
  GetXaxis :: TAxis
  ProjectionY :: "int \<Rightarrow> int \<Rightarrow> 'g TH1D"

definition GetNbinsX :: "'g TH2 \<Rightarrow> int" where
  "GetNbinsX h = fNbins (GetXaxis h)"

text \<open>
  The null pointer is \<open>None\<close>. The result is the returned pt, the log lines written and the
  generator state after the call.
\<close>

definition getCorrectedPt :: "real \<Rightarrow> 'g TH2 option \<Rightarrow> 'g \<Rightarrow> real \<times> log_line list \<times> 'g" where
  "getCorrectedPt ptRec responseMatrix gen =
    (case responseMatrix of
       None \<Rightarrow> (ptRec, [LOGP error ''Response matrix is null. Returning uncorrected pt.''], gen)
     | Some h \<Rightarrow>
         (let binX = FindBin (GetXaxis h) ptRec in
            if binX < 1 \<or> binX > GetNbinsX h then
              (ptRec, [LOGP error ''Bin index out of range: binX = {}''], gen)
            else
              (let proj = ProjectionY h binX binX in
                 if GetEntries proj = 0 then (ptRec, [], gen)
                 else
                   (let (deltaPt, gen') = GetRandom proj gen;
                        ptGen = ptRec + deltaPt
                    in (ptGen, [], gen')))))"

text \<open>
  A response matrix for concrete evaluation: two bins on \<open>[0, 10)\<close>; the projection of
  bin 1 is empty, that of bin 2 has five entries and its draw returns the generator's
  counter as the sample.
\<close>

definition example_matrix :: "nat TH2" where
  "example_matrix =
    \<lparr>GetXaxis = \<lparr>fNbins = 2, fXmin = 0, fXmax = 10\<rparr>,
     ProjectionY = (\<lambda>firstbin lastbin.
        \<lparr>GetEntries = (if firstbin = 1 then 0 else 5),
         GetRandom = (\<lambda>g. (real g, Suc g))\<rparr>)\<rparr>"

section \<open>Background subtraction\<close>

text \<open>
  Modelled from the spec: \<^verbatim>\<open>JetBkgSubUtils::doRhoAreaSub\<close> is declared in
  \<^verbatim>\<open>PWGJE/Core/JetBkgSubUtils.h\<close>, which is not among the sources; the source only calls it
  (lines 587, 816, 1070, 1180, 1355) and reads \<^verbatim>\<open>pt()\<close> of its result. The specification
  gives that value: "returns a background-subtracted pt: pt_sub = pt_raw - area\<cdot>density";
  the momentum-weighted density is passed along and does not enter the formula.
\<close>

definition doRhoAreaSub_pt :: "real \<Rightarrow> real \<Rightarrow> real \<Rightarrow> real \<Rightarrow> real" where
  "doRhoAreaSub_pt pt_raw area rhoParam rhoMParam = pt_raw - area * rhoParam"

text \<open>
  The jet selection of \<^verbatim>\<open>processData\<close>, lines 586 to 589: a jet is skipped when the
  subtracted and unfolded pt is below \<^verbatim>\<open>minJetPt\<close>. The result is the verdict with the log
  lines and the generator state of the unfolding.
\<close>

definition jetPtBelowThreshold ::
  "real \<Rightarrow> real \<Rightarrow> real \<Rightarrow> real \<Rightarrow> real \<Rightarrow> 'g TH2 option \<Rightarrow> 'g \<Rightarrow> bool \<times> log_line list \<times> 'g" where
  "jetPtBelowThreshold minJetPt jet_pt jet_area rhoPerp rhoMPerp responseMatrix gen =
    (let jetMinusBkg_pt = doRhoAreaSub_pt jet_pt jet_area rhoPerp rhoMPerp;
         (ptCorr, logs, gen') = getCorrectedPt jetMinusBkg_pt responseMatrix gen
     in (ptCorr < minJetPt, logs, gen'))"

section \<open>Tracks and configuration\<close>

text \<open>The configurables that the track selection and the fills of \<^verbatim>\<open>processData\<close> read.\<close>

record Configurables =
  requirePvContributor :: bool
  applyItsPid :: bool
  minItsNclusters :: int
  minTpcNcrossedRows :: int
  minTpcNcrossedRowsOverFindable :: real
  maxChiSquareTpc :: real
  maxChiSquareIts :: real
  minPt :: real
  minEta :: real
  maxEta :: real
  maxDcaxy :: real
  maxDcaz :: real
  minNsigmaTpc :: real
  maxNsigmaTpc :: real
  ptMaxItsPidProt :: real
  ptMaxItsPidDeut :: real
  ptMaxItsPidHel :: real
  nSigmaItsMin :: real
  nSigmaItsMax :: real

text \<open>
  A row of the track table, by the columns the code reads. The three \<open>nSigmaITS\<close> columns
  stand for the values that \<^verbatim>\<open>itsResponse.nSigmaITS<...>(track)\<close> computes for the track.
\<close>

record Track =
  isPVContributor :: bool
  hasITS :: bool
  hasTPC :: bool
  hasTOF :: bool
  itsNCls :: int
  tpcNClsCrossedRows :: int
  tpcNClsFindable :: int
  tpcChi2NCl :: real
  itsChi2NCl :: real
  eta :: real
  phi :: real
  pt :: real
  sign :: int
  dcaXY :: real
  dcaZ :: real
  tpcNSigmaPr :: real
  tofNSigmaPr :: real
  tpcNSigmaDe :: real
  tofNSigmaDe :: real
  tpcNSigmaHe :: real
  nSigmaITS_Proton :: real
  nSigmaITS_Deuteron :: real
  nSigmaITS_Helium3 :: real

text \<open>
  The test \<^verbatim>\<open>static_cast<double>(n) / static_cast<double>(d) < m\<close>. For \<open>d = 0\<close> the
  quotient of doubles is \<open>+\<infinity>\<close> when \<open>n > 0\<close> and NaN when \<open>n = 0\<close>, both not below \<open>m\<close>, and
  \<open>-\<infinity>\<close> when \<open>n < 0\<close>, below every \<open>m\<close>.
\<close>

definition ratio_below :: "int \<Rightarrow> int \<Rightarrow> real \<Rightarrow> bool" where
  "ratio_below n d m = (if d = 0 then n < 0 else real_of_int n / real_of_int d < m)"

definition passedTrackSelection :: "Configurables \<Rightarrow> Track \<Rightarrow> bool" where
  "passedTrackSelection cfg track =
    (if requirePvContributor cfg \<and> \<not> isPVContributor track then False
     else if \<not> hasITS track then False
     else if itsNCls track < minItsNclusters cfg then False
     else if \<not> hasTPC track then False
     else if tpcNClsCrossedRows track < minTpcNcrossedRows cfg then False
     else if ratio_below (tpcNClsCrossedRows track) (tpcNClsFindable track)
               (minTpcNcrossedRowsOverFindable cfg) then False
     else if tpcChi2NCl track > maxChiSquareTpc cfg then False
     else if itsChi2NCl track > maxChiSquareIts cfg then False
     else if eta track < minEta cfg \<or> eta track > maxEta cfg then False
     else if pt track < minPt cfg then False
     else True)"

definition isHighPurityAntiproton :: "Track \<Rightarrow> bool" where
  "isHighPurityAntiproton track =
    (let nsigmaTPCPr = tpcNSigmaPr track;
         nsigmaTOFPr = tofNSigmaPr track;
         pt' = pt track;
         ptThreshold = 0.5;
         nsigmaMaxPr = 2.0
     in
       if pt' < ptThreshold \<and> \<bar>nsigmaTPCPr\<bar> < nsigmaMaxPr then True
       else if pt' \<ge> ptThreshold \<and> \<bar>nsigmaTPCPr\<bar> < nsigmaMaxPr \<and> hasTOF track
               \<and> \<bar>nsigmaTOFPr\<bar> < nsigmaMaxPr then True
       else False)"

section \<open>The underlying-event loop of processData\<close>

text \<open>A call \<^verbatim>\<open>registryData.fill(HIST(name), x, y)\<close>; the registry is the list of its fills.\<close>

datatype hist_fill = Fill (hist: string) (xval: real) (yval: real)

text \<open>
  Lines 688 to 694: the distances of a track to the two underlying-event axes and the test
  that skips the track. The pseudorapidity and azimuth of an axis are the values of
  \<^verbatim>\<open>ueAxis.Eta()\<close> and \<^verbatim>\<open>ueAxis.Phi()\<close>, taken as numbers.
\<close>

definition outsideUeCones :: "real \<Rightarrow> real \<Rightarrow> real \<Rightarrow> real \<Rightarrow> real \<Rightarrow> real \<Rightarrow> real \<Rightarrow> bool" where
  "outsideUeCones trackEta trackPhi ueAxis1Eta ueAxis1Phi ueAxis2Eta ueAxis2Phi coneRadius =
    (let deltaEtaUe1 = trackEta - ueAxis1Eta;
         deltaPhiUe1 = getDeltaPhi trackPhi ueAxis1Phi;
         deltaRUe1 = sqrt (deltaEtaUe1 * deltaEtaUe1 + deltaPhiUe1 * deltaPhiUe1);
         deltaEtaUe2 = trackEta - ueAxis2Eta;
         deltaPhiUe2 = getDeltaPhi trackPhi ueAxis2Phi;
         deltaRUe2 = sqrt (deltaEtaUe2 * deltaEtaUe2 + deltaPhiUe2 * deltaPhiUe2)
     in deltaRUe1 > coneRadius \<and> deltaRUe2 > coneRadius)"

text \<open>
  Lines 697 to 764: the fills of a track that was not skipped by the cone test, block by
  block as the source comments them. Line 708, the DCA distribution of antiprotons:
\<close>

definition ueDcaFill :: "Configurables \<Rightarrow> Track \<Rightarrow> hist_fill list" where
  "ueDcaFill cfg track =
    (let pt' = pt track; dcaxy = dcaXY track; dcaz = dcaZ track
     in if sign track < 0 \<and> isHighPurityAntiproton track \<and> \<bar>dcaz\<bar> < maxDcaz cfg
        then [Fill ''antiproton_dca_ue'' pt' dcaxy] else [])"

text \<open>
  Lines 717 to 737, particle identification with the ITS cluster size: each flag starts
  false, is set by the ITS window, then by \<^verbatim>\<open>!applyItsPid\<close>, then by the pt limit.
\<close>

definition passedItsPidProt :: "Configurables \<Rightarrow> Track \<Rightarrow> bool" where
  "passedItsPidProt cfg track =
    (let flag0 = False;
         flag1 = (if nSigmaITS_Proton track > nSigmaItsMin cfg
                     \<and> nSigmaITS_Proton track < nSigmaItsMax cfg then True else flag0);
         flag2 = (if \<not> applyItsPid cfg then True else flag1)
     in if pt track > ptMaxItsPidProt cfg then True else flag2)"

definition passedItsPidDeut :: "Configurables \<Rightarrow> Track \<Rightarrow> bool" where
  "passedItsPidDeut cfg track =
    (let flag0 = False;
         flag1 = (if nSigmaITS_Deuteron track > nSigmaItsMin cfg
                     \<and> nSigmaITS_Deuteron track < nSigmaItsMax cfg then True else flag0);
         flag2 = (if \<not> applyItsPid cfg then True else flag1)
     in if pt track > ptMaxItsPidDeut cfg then True else flag2)"

definition passedItsPidHel :: "Configurables \<Rightarrow> Track \<Rightarrow> bool" where
  "passedItsPidHel cfg track =
    (let flag0 = False;
         flag1 = (if nSigmaITS_Helium3 track > nSigmaItsMin cfg
                     \<and> nSigmaITS_Helium3 track < nSigmaItsMax cfg then True else flag0);
         flag2 = (if \<not> applyItsPid cfg then True else flag1)
     in if 2.0 * pt track > ptMaxItsPidHel cfg then True else flag2)"

text \<open>Lines 740 to 754, antimatter.\<close>

definition ueAntimatterFills :: "Configurables \<Rightarrow> Track \<Rightarrow> hist_fill list" where
  "ueAntimatterFills cfg track =
    (let nsigmaTPCPr = tpcNSigmaPr track;
         nsigmaTOFPr = tofNSigmaPr track;
         nsigmaTPCDe = tpcNSigmaDe track;
         nsigmaTOFDe = tofNSigmaDe track;
         nsigmaTPCHe = tpcNSigmaHe track;
         pt' = pt track
     in
       if sign track < 0 then
         (if passedItsPidProt cfg track then
            [Fill ''antiproton_ue_tpc'' pt' nsigmaTPCPr]
            @ (if nsigmaTPCPr > minNsigmaTpc cfg \<and> nsigmaTPCPr < maxNsigmaTpc cfg
                  \<and> hasTOF track
               then [Fill ''antiproton_ue_tof'' pt' nsigmaTOFPr] else [])
          else [])
         @ (if passedItsPidDeut cfg track then
              [Fill ''antideuteron_ue_tpc'' pt' nsigmaTPCDe]
              @ (if nsigmaTPCDe > minNsigmaTpc cfg \<and> nsigmaTPCDe < maxNsigmaTpc cfg
                    \<and> hasTOF track
                 then [Fill ''antideuteron_ue_tof'' pt' nsigmaTOFDe] else [])
            else [])
         @ (if passedItsPidHel cfg track
            then [Fill ''antihelium3_ue_tpc'' (2.0 * pt') nsigmaTPCHe] else [])
       else [])"

text \<open>Lines 757 to 764, matter.\<close>

definition ueMatterFills :: "Configurables \<Rightarrow> Track \<Rightarrow> hist_fill list" where
  "ueMatterFills cfg track =
    (let nsigmaTPCDe = tpcNSigmaDe track;
         nsigmaTOFDe = tofNSigmaDe track;
         nsigmaTPCHe = tpcNSigmaHe track;
         pt' = pt track
     in
       if sign track > 0 then
         (if passedItsPidDeut cfg track \<and> nsigmaTPCDe > minNsigmaTpc cfg
             \<and> nsigmaTPCDe < maxNsigmaTpc cfg \<and> hasTOF track
          then [Fill ''deuteron_ue_tof'' pt' nsigmaTOFDe] else [])
         @ (if passedItsPidHel cfg track
            then [Fill ''helium3_ue_tpc'' (2.0 * pt') nsigmaTPCHe] else [])
       else [])"

text \<open>
  The blocks in the order of the source; the DCA selection of line 713 ends the iteration
  after the first block.
\<close>

definition ueFills :: "Configurables \<Rightarrow> Track \<Rightarrow> hist_fill list" where
  "ueFills cfg track =
    (let dcaxy = dcaXY track; dcaz = dcaZ track;
         dcaFill = ueDcaFill cfg track
     in
       if \<bar>dcaxy\<bar> > maxDcaxy cfg \<or> \<bar>dcaz\<bar> > maxDcaz cfg then dcaFill
       else dcaFill @ ueAntimatterFills cfg track @ ueMatterFills cfg track)"

text \<open>Lines 682 to 765: the body of the loop for one track, and the loop over the table.\<close>

definition ueTrackFills ::
  "Configurables \<Rightarrow> real \<Rightarrow> real \<Rightarrow> real \<Rightarrow> real \<Rightarrow> real \<Rightarrow> Track \<Rightarrow> hist_fill list" where
  "ueTrackFills cfg ueAxis1Eta ueAxis1Phi ueAxis2Eta ueAxis2Phi coneRadius track =
    (if \<not> passedTrackSelection cfg track then []
     else if outsideUeCones (eta track) (phi track) ueAxis1Eta ueAxis1Phi ueAxis2Eta ueAxis2Phi
               coneRadius then []
     else ueFills cfg track)"

fun ueLoop ::
  "Configurables \<Rightarrow> real \<Rightarrow> real \<Rightarrow> real \<Rightarrow> real \<Rightarrow> real \<Rightarrow> Track list \<Rightarrow> hist_fill list
     \<Rightarrow> hist_fill list" where
  "ueLoop cfg ueAxis1Eta ueAxis1Phi ueAxis2Eta ueAxis2Phi coneRadius [] registry = registry"
| "ueLoop cfg ueAxis1Eta ueAxis1Phi ueAxis2Eta ueAxis2Phi coneRadius (track # tracks) registry =
     ueLoop cfg ueAxis1Eta ueAxis1Phi ueAxis2Eta ueAxis2Phi coneRadius tracks
       (registry @ ueTrackFills cfg ueAxis1Eta ueAxis1Phi ueAxis2Eta ueAxis2Phi coneRadius track)"

text \<open>The default values of the configurables and a track for concrete evaluation.\<close>

definition default_cfg :: Configurables where
  "default_cfg =
    \<lparr>requirePvContributor = False, applyItsPid = True, minItsNclusters = 5,
     minTpcNcrossedRows = 80, minTpcNcrossedRowsOverFindable = 0.8, maxChiSquareTpc = 4.0,
     maxChiSquareIts = 36.0, minPt = 0.3, minEta = - 0.8, maxEta = 0.8, maxDcaxy = 0.05,
     maxDcaz = 0.05, minNsigmaTpc = - 3.0, maxNsigmaTpc = 3.0, ptMaxItsPidProt = 1.0,
     ptMaxItsPidDeut = 1.0, ptMaxItsPidHel = 1.0, nSigmaItsMin = - 2.0, nSigmaItsMax = 2.0\<rparr>"

definition example_track :: Track where
  "example_track =
    \<lparr>isPVContributor = True, hasITS = True, hasTPC = True, hasTOF = True, itsNCls = 7,
     tpcNClsCrossedRows = 120, tpcNClsFindable = 130, tpcChi2NCl = 1, itsChi2NCl = 2,
     eta = 0.1, phi = 1, pt = 0.8, sign = - 1, dcaXY = 0.01, dcaZ = 0.02,
     tpcNSigmaPr = 0.5, tofNSigmaPr = 1, tpcNSigmaDe = 5, tofNSigmaDe = 6, tpcNSigmaHe = 9,
     nSigmaITS_Proton = 0.3, nSigmaITS_Deuteron = - 4, nSigmaITS_Helium3 = - 6\<rparr>"

section \<open>Properties of getPerpendicularAxis\<close>

lemma quad_a_pos: "X p \<noteq> 0 \<or> Y p \<noteq> 0 \<Longrightarrow> 0 < quad_a p"
  unfolding quad_a_def
  by (metis add_pos_nonneg add_nonneg_pos not_real_square_gt_zero zero_le_square)

lemma general_case_value:
  assumes "X p \<noteq> 0" and "Y p \<noteq> 0" and "0 \<le> quad_delta p"
  shows "getPerpendicularAxis p s =
    (SetXYZ (Num ((- quad_b p + s * sqrt (quad_delta p)) / (2 * quad_a p)))
            (Num ((- (Z p * Z p) - X p * ((- quad_b p + s * sqrt (quad_delta p)) / (2 * quad_a p))) / Y p))
            (Num (Z p)), [])"
proof -
  have "quad_a p \<noteq> 0" using quad_a_pos [of p] assms(1) by simp
  then show ?thesis
    using assms by (simp add: getPerpendicularAxis_def Let_def std_sqrt_def fp_map_def)
qed

lemma general_case_constraint:
  assumes "X p \<noteq> 0" and "Y p \<noteq> 0" and "0 \<le> quad_delta p"
  shows "\<exists>ux uy.
           fst (getPerpendicularAxis p s) = SetXYZ (Num ux) (Num uy) (Num (Z p))
         \<and> ux * X p + uy * Y p = - (Z p)\<^sup>2"
proof -
  let ?ux = "(- quad_b p + s * sqrt (quad_delta p)) / (2 * quad_a p)"
  let ?uy = "(- (Z p * Z p) - X p * ?ux) / Y p"
  have v: "fst (getPerpendicularAxis p s) = SetXYZ (Num ?ux) (Num ?uy) (Num (Z p))"
    using general_case_value [OF assms, of s] by simp
  have "?uy * Y p = - (Z p * Z p) - X p * ?ux"
    using assms(2) by simp
  then have "?ux * X p + ?uy * Y p = - (Z p)\<^sup>2"
    by (simp add: power2_eq_square mult.commute)
  with v show ?thesis by blast
qed

text \<open>
  C1. For every input vector with \<open>px \<noteq> 0\<close> and \<open>py \<noteq> 0\<close> whose discriminant is not
  negative, the outputs for sign \<open>+1\<close> and for sign \<open>-1\<close> are numbers, both satisfy
  \<open>ux * px + uy * py = - pz\<^sup>2\<close>, and both have \<open>uz = pz\<close>. (The condition \<open>a \<noteq> 0\<close> of
  the claim follows from \<open>px \<noteq> 0\<close> over the reals.)
\<close>

theorem C1_general_case_constraint:
  assumes "X p \<noteq> 0" and "Y p \<noteq> 0" and "0 \<le> quad_delta p"
  shows "(\<exists>ux uy.
           fst (getPerpendicularAxis p 1) = SetXYZ (Num ux) (Num uy) (Num (Z p))
         \<and> ux * X p + uy * Y p = - (Z p)\<^sup>2)
       \<and> (\<exists>ux uy.
           fst (getPerpendicularAxis p (- 1)) = SetXYZ (Num ux) (Num uy) (Num (Z p))
         \<and> ux * X p + uy * Y p = - (Z p)\<^sup>2)"
  using general_case_constraint [OF assms, of 1] general_case_constraint [OF assms, of "- 1"]
  by (rule conjI)

theorem C1_general_case_constraint_witness:
  "X \<lparr>X = 1, Y = 2, Z = 2 :: real\<rparr> \<noteq> 0 \<and> Y \<lparr>X = 1, Y = 2, Z = 2 :: real\<rparr> \<noteq> 0
   \<and> 0 \<le> quad_delta \<lparr>X = 1, Y = 2, Z = 2\<rparr>
   \<and> (\<exists>ux uy.
           fst (getPerpendicularAxis \<lparr>X = 1, Y = 2, Z = 2\<rparr> 1) = SetXYZ (Num ux) (Num uy) (Num 2)
         \<and> ux * 1 + uy * 2 = - (2::real)\<^sup>2)
   \<and> (\<exists>ux uy.
           fst (getPerpendicularAxis \<lparr>X = 1, Y = 2, Z = 2\<rparr> (- 1)) = SetXYZ (Num ux) (Num uy) (Num 2)
         \<and> ux * 1 + uy * 2 = - (2::real)\<^sup>2)"
proof -
  let ?p = "\<lparr>X = 1, Y = 2, Z = 2 :: real\<rparr>"
  have h1: "X ?p \<noteq> 0" and h2: "Y ?p \<noteq> 0" by simp_all
  have h3: "0 \<le> quad_delta ?p"
    by (simp add: quad_delta_def quad_a_def quad_b_def quad_c_def)
  show ?thesis
    using h1 h2 h3 C1_general_case_constraint [OF h1 h2 h3] by simp
qed

lemma both_zero_value:
  "X p = 0 \<Longrightarrow> Y p = 0 \<Longrightarrow> getPerpendicularAxis p s = (SetXYZ (Num 0) (Num 0) (Num 0), [])"
  by (simp add: getPerpendicularAxis_def)

lemma negative_delta_value:
  "X p \<noteq> 0 \<Longrightarrow> Y p \<noteq> 0 \<Longrightarrow> quad_delta p < 0 \<Longrightarrow>
   getPerpendicularAxis p s = (SetXYZ (Num 0) (Num 0) (Num 0),
      [LOGP warn ''Invalid input in getPerpendicularAxis: delta = {}, a = {}''])"
  by (simp add: getPerpendicularAxis_def Let_def)

lemma px_zero_value:
  "X p = 0 \<Longrightarrow> Y p \<noteq> 0 \<Longrightarrow>
   getPerpendicularAxis p s =
     (SetXYZ (fp_map (\<lambda>r. s * r) (std_sqrt (Y p * Y p - (Z p * Z p) * (Z p * Z p) / (Y p * Y p))))
             (Num (- (Z p * Z p) / Y p)) (Num (Z p)), [])"
  by (simp add: getPerpendicularAxis_def Let_def)

lemma py_zero_value:
  "Y p = 0 \<Longrightarrow> X p \<noteq> 0 \<Longrightarrow>
   getPerpendicularAxis p s =
     (SetXYZ (Num (- (Z p * Z p) / X p))
             (fp_map (\<lambda>r. s * r) (std_sqrt (X p * X p - (Z p * Z p) * (Z p * Z p) / (X p * X p))))
             (Num (Z p)), [])"
  by (simp add: getPerpendicularAxis_def Let_def)

text \<open>The discriminant is negative exactly when \<open>pz\<^sup>2\<close> exceeds \<open>px\<^sup>2 + py\<^sup>2\<close>.\<close>

lemma quad_delta_factor:
  "quad_delta p = 4 * (Y p)\<^sup>2 * ((quad_a p)\<^sup>2 - (Z p)^4)"
  by (simp add: quad_delta_def quad_a_def quad_b_def quad_c_def power2_eq_square
      power4_eq_xxxx algebra_simps)

text \<open>The radicand of the two direct solutions is not negative when \<open>|pz| \<le> |q|\<close>.\<close>

lemma direct_radicand_nonneg:
  fixes q z :: real
  assumes "q \<noteq> 0" and "\<bar>z\<bar> \<le> \<bar>q\<bar>"
  shows "0 \<le> q * q - (z * z) * (z * z) / (q * q)"
proof -
  have zz: "z * z \<le> q * q"
    using assms(2) by (metis abs_le_square_iff power2_eq_square)
  have "(z * z) * (z * z) \<le> (q * q) * (q * q)"
    using zz mult_mono [of "z * z" "q * q" "z * z" "q * q"] by simp
  moreover have "0 < q * q" by (metis assms(1) not_real_square_gt_zero)
  ultimately have "(z * z) * (z * z) / (q * q) \<le> q * q"
    by (simp add: pos_divide_le_eq)
  then show ?thesis by simp
qed

text \<open>
  C2 (as stated, refuted). The claim lists an input with exactly one transverse component
  zero among those answered with the zero vector. For \<open>p = (0, 1, 0)\<close> and sign \<open>+1\<close> the
  code takes the branch "protection 1" and returns \<open>(1, 0, 0)\<close>.
\<close>

theorem C2_one_component_zero_counterexample:
  "X \<lparr>X = 0, Y = 1, Z = 0 :: real\<rparr> = 0
   \<and> getPerpendicularAxis \<lparr>X = 0, Y = 1, Z = 0\<rparr> 1 = (SetXYZ (Num 1) (Num 0) (Num 0), [])
   \<and> fst (getPerpendicularAxis \<lparr>X = 0, Y = 1, Z = 0\<rparr> 1) \<noteq> SetXYZ (Num 0) (Num 0) (Num 0)"
  by (simp add: getPerpendicularAxis_def Let_def std_sqrt_def fp_map_def SetXYZ_def)

lemma direct_px_value:
  assumes "X p = 0" and "Y p \<noteq> 0" and "\<bar>Z p\<bar> \<le> \<bar>Y p\<bar>"
  shows "getPerpendicularAxis p s =
        (SetXYZ (Num (s * sqrt (Y p * Y p - (Z p * Z p) * (Z p * Z p) / (Y p * Y p))))
                (Num (- (Z p * Z p) / Y p)) (Num (Z p)), [])"
proof -
  have "0 \<le> Y p * Y p - (Z p * Z p) * (Z p * Z p) / (Y p * Y p)"
    using direct_radicand_nonneg [of "Y p" "Z p"] assms by simp
  with assms show ?thesis
    by (simp add: px_zero_value std_sqrt_def fp_map_def)
qed

lemma direct_py_value:
  assumes "Y p = 0" and "X p \<noteq> 0" and "\<bar>Z p\<bar> \<le> \<bar>X p\<bar>"
  shows "getPerpendicularAxis p s =
        (SetXYZ (Num (- (Z p * Z p) / X p))
                (Num (s * sqrt (X p * X p - (Z p * Z p) * (Z p * Z p) / (X p * X p))))
                (Num (Z p)), [])"
proof -
  have "0 \<le> X p * X p - (Z p * Z p) * (Z p * Z p) / (X p * X p)"
    using direct_radicand_nonneg [of "X p" "Z p"] assms by simp
  with assms show ?thesis
    by (simp add: py_zero_value std_sqrt_def fp_map_def)
qed

lemma direct_px_nonzero:
  assumes "X p = 0" and "Y p \<noteq> 0" and "\<bar>Z p\<bar> \<le> \<bar>Y p\<bar>" and "s = 1 \<or> s = - 1"
  shows "fst (getPerpendicularAxis p s) \<noteq> SetXYZ (Num 0) (Num 0) (Num 0)"
proof (cases "Z p = 0")
  case True
  from assms(4) have "s \<noteq> 0" by auto
  with True assms(2) show ?thesis
    unfolding direct_px_value [OF assms(1-3)] by (simp add: SetXYZ_def)
next
  case False
  then show ?thesis
    unfolding direct_px_value [OF assms(1-3)] by (simp add: SetXYZ_def)
qed

lemma direct_py_nonzero:
  assumes "Y p = 0" and "X p \<noteq> 0" and "\<bar>Z p\<bar> \<le> \<bar>X p\<bar>" and "s = 1 \<or> s = - 1"
  shows "fst (getPerpendicularAxis p s) \<noteq> SetXYZ (Num 0) (Num 0) (Num 0)"
proof (cases "Z p = 0")
  case True
  from assms(4) have "s \<noteq> 0" by auto
  with True assms(2) show ?thesis
    unfolding direct_py_value [OF assms(1-3)] by (simp add: SetXYZ_def)
next
  case False
  then show ?thesis
    unfolding direct_py_value [OF assms(1-3)] by (simp add: SetXYZ_def)
qed

text \<open>
  The solution of the general case is not the zero vector either: its third component is
  \<open>pz\<close>, and for \<open>pz = 0\<close> the discriminant is positive and \<open>b = 0\<close>, so that
  \<open>ux = sign \<cdot> \<surd>\<Delta> / (2a)\<close> is not zero.
\<close>

lemma general_nonzero:
  assumes "X p \<noteq> 0" and "Y p \<noteq> 0" and "0 \<le> quad_delta p" and "s = 1 \<or> s = - 1"
  shows "fst (getPerpendicularAxis p s) \<noteq> SetXYZ (Num 0) (Num 0) (Num 0)"
proof (cases "Z p = 0")
  case False
  then show ?thesis
    unfolding general_case_value [OF assms(1-3)] by (simp add: SetXYZ_def)
next
  case True
  from assms(4) have s: "s \<noteq> 0" by auto
  have a: "0 < quad_a p" using quad_a_pos [of p] assms(1) by simp
  have "quad_delta p = 4 * (Y p)\<^sup>2 * (quad_a p)\<^sup>2"
    using True by (simp add: quad_delta_factor)
  moreover have "0 < (Y p)\<^sup>2" using assms(2) by simp
  moreover have "0 < (quad_a p)\<^sup>2" using a by simp
  ultimately have "0 < quad_delta p" by simp
  then have r: "sqrt (quad_delta p) \<noteq> 0" by simp
  have b: "quad_b p = 0" using True by (simp add: quad_b_def)
  have "(- quad_b p + s * sqrt (quad_delta p)) / (2 * quad_a p) \<noteq> 0"
    using s r a unfolding b by simp
  then show ?thesis
    unfolding general_case_value [OF assms(1-3)] by (simp add: SetXYZ_def)
qed

text \<open>
  Hence, on every input whose direct solution has a radicand that is not negative, the zero
  vector is the answer in the two situations named and in no other.
\<close>

lemma zero_vector_iff:
  assumes s: "s = 1 \<or> s = - 1"
    and nx: "\<not> (X p = 0 \<and> Y p \<noteq> 0 \<and> \<bar>Y p\<bar> < \<bar>Z p\<bar>)"
    and ny: "\<not> (Y p = 0 \<and> X p \<noteq> 0 \<and> \<bar>X p\<bar> < \<bar>Z p\<bar>)"
  shows "fst (getPerpendicularAxis p s) = SetXYZ (Num 0) (Num 0) (Num 0) \<longleftrightarrow>
           (X p = 0 \<and> Y p = 0) \<or> (X p \<noteq> 0 \<and> Y p \<noteq> 0 \<and> quad_delta p < 0)"
proof -
  consider (both) "X p = 0" "Y p = 0"
    | (px) "X p = 0" "Y p \<noteq> 0" "\<bar>Z p\<bar> \<le> \<bar>Y p\<bar>"
    | (py) "Y p = 0" "X p \<noteq> 0" "\<bar>Z p\<bar> \<le> \<bar>X p\<bar>"
    | (neg) "X p \<noteq> 0" "Y p \<noteq> 0" "quad_delta p < 0"
    | (gen) "X p \<noteq> 0" "Y p \<noteq> 0" "0 \<le> quad_delta p"
    using nx ny by fastforce
  then show ?thesis
  proof cases
    case both
    then show ?thesis by (simp add: both_zero_value)
  next
    case px
    then show ?thesis using direct_px_nonzero [OF px s] by simp
  next
    case py
    then show ?thesis using direct_py_nonzero [OF py s] by simp
  next
    case neg
    then show ?thesis by (simp add: negative_delta_value)
  next
    case gen
    then show ?thesis using general_nonzero [OF gen s] by simp
  qed
qed

lemma sqrt_144: "sqrt 144 = 12"
  using real_sqrt_abs [of 12] by simp

lemma quad_delta_1_2_2: "quad_delta \<lparr>X = 1, Y = 2, Z = 2\<rparr> = 144"
  by (simp add: quad_delta_def quad_a_def quad_b_def quad_c_def)

text \<open>
  C2 (amended). Both transverse components zero: the zero vector, no log line. General
  case with a negative discriminant: the zero vector and one warning. Exactly one
  transverse component zero and \<open>|pz|\<close> not above the other one: the direct solution,
  whose third component is \<open>pz\<close>, no log line. General case with a discriminant that is
  not negative: the solution of the quadratic, third component \<open>pz\<close>, no log line. For
  sign \<open>+1\<close> or \<open>-1\<close> neither solution is the zero vector, so that on these inputs, which
  are all inputs but those with exactly one transverse component zero and \<open>|pz|\<close> above
  the other one, the zero vector is the answer in the first two situations and in no
  other. The function is total: every input has a result.
\<close>

theorem C2_invalid_input_recovery:
  "(X p = 0 \<and> Y p = 0 \<longrightarrow>
      getPerpendicularAxis p s = (SetXYZ (Num 0) (Num 0) (Num 0), []))
   \<and> (X p \<noteq> 0 \<and> Y p \<noteq> 0 \<and> quad_delta p < 0 \<longrightarrow>
      getPerpendicularAxis p s = (SetXYZ (Num 0) (Num 0) (Num 0),
        [LOGP warn ''Invalid input in getPerpendicularAxis: delta = {}, a = {}'']))
   \<and> (X p = 0 \<and> Y p \<noteq> 0 \<and> \<bar>Z p\<bar> \<le> \<bar>Y p\<bar> \<longrightarrow>
      getPerpendicularAxis p s =
        (SetXYZ (Num (s * sqrt (Y p * Y p - (Z p * Z p) * (Z p * Z p) / (Y p * Y p))))
                (Num (- (Z p * Z p) / Y p)) (Num (Z p)), [])
      \<and> (s = 1 \<or> s = - 1 \<longrightarrow>
           fst (getPerpendicularAxis p s) \<noteq> SetXYZ (Num 0) (Num 0) (Num 0)))
   \<and> (Y p = 0 \<and> X p \<noteq> 0 \<and> \<bar>Z p\<bar> \<le> \<bar>X p\<bar> \<longrightarrow>
      getPerpendicularAxis p s =
        (SetXYZ (Num (- (Z p * Z p) / X p))
                (Num (s * sqrt (X p * X p - (Z p * Z p) * (Z p * Z p) / (X p * X p))))
                (Num (Z p)), [])
      \<and> (s = 1 \<or> s = - 1 \<longrightarrow>
           fst (getPerpendicularAxis p s) \<noteq> SetXYZ (Num 0) (Num 0) (Num 0)))
   \<and> (X p \<noteq> 0 \<and> Y p \<noteq> 0 \<and> 0 \<le> quad_delta p \<longrightarrow>
      getPerpendicularAxis p s =
        (SetXYZ (Num ((- quad_b p + s * sqrt (quad_delta p)) / (2 * quad_a p)))
                (Num ((- (Z p * Z p)
                       - X p * ((- quad_b p + s * sqrt (quad_delta p)) / (2 * quad_a p))) / Y p))
                (Num (Z p)), [])
      \<and> (s = 1 \<or> s = - 1 \<longrightarrow>
           fst (getPerpendicularAxis p s) \<noteq> SetXYZ (Num 0) (Num 0) (Num 0)))
   \<and> ((s = 1 \<or> s = - 1)
       \<and> \<not> (X p = 0 \<and> Y p \<noteq> 0 \<and> \<bar>Y p\<bar> < \<bar>Z p\<bar>)
       \<and> \<not> (Y p = 0 \<and> X p \<noteq> 0 \<and> \<bar>X p\<bar> < \<bar>Z p\<bar>) \<longrightarrow>
      (fst (getPerpendicularAxis p s) = SetXYZ (Num 0) (Num 0) (Num 0) \<longleftrightarrow>
         (X p = 0 \<and> Y p = 0) \<or> (X p \<noteq> 0 \<and> Y p \<noteq> 0 \<and> quad_delta p < 0)))"
proof (intro conjI impI)
  assume "X p = 0 \<and> Y p = 0"
  then show "getPerpendicularAxis p s = (SetXYZ (Num 0) (Num 0) (Num 0), [])"
    by (simp add: both_zero_value)
next
  assume "X p \<noteq> 0 \<and> Y p \<noteq> 0 \<and> quad_delta p < 0"
  then show "getPerpendicularAxis p s = (SetXYZ (Num 0) (Num 0) (Num 0),
        [LOGP warn ''Invalid input in getPerpendicularAxis: delta = {}, a = {}''])"
    by (simp add: negative_delta_value)
next
  assume h: "X p = 0 \<and> Y p \<noteq> 0 \<and> \<bar>Z p\<bar> \<le> \<bar>Y p\<bar>"
  then show "getPerpendicularAxis p s =
        (SetXYZ (Num (s * sqrt (Y p * Y p - (Z p * Z p) * (Z p * Z p) / (Y p * Y p))))
                (Num (- (Z p * Z p) / Y p)) (Num (Z p)), [])"
    by (intro direct_px_value) simp_all
  assume "s = 1 \<or> s = - 1"
  with h show "fst (getPerpendicularAxis p s) \<noteq> SetXYZ (Num 0) (Num 0) (Num 0)"
    by (intro direct_px_nonzero) simp_all
next
  assume h: "Y p = 0 \<and> X p \<noteq> 0 \<and> \<bar>Z p\<bar> \<le> \<bar>X p\<bar>"
  then show "getPerpendicularAxis p s =
        (SetXYZ (Num (- (Z p * Z p) / X p))
                (Num (s * sqrt (X p * X p - (Z p * Z p) * (Z p * Z p) / (X p * X p))))
                (Num (Z p)), [])"
    by (intro direct_py_value) simp_all
  assume "s = 1 \<or> s = - 1"
  with h show "fst (getPerpendicularAxis p s) \<noteq> SetXYZ (Num 0) (Num 0) (Num 0)"
    by (intro direct_py_nonzero) simp_all
next
  assume h: "X p \<noteq> 0 \<and> Y p \<noteq> 0 \<and> 0 \<le> quad_delta p"
  then show "getPerpendicularAxis p s =
        (SetXYZ (Num ((- quad_b p + s * sqrt (quad_delta p)) / (2 * quad_a p)))
                (Num ((- (Z p * Z p)
                       - X p * ((- quad_b p + s * sqrt (quad_delta p)) / (2 * quad_a p))) / Y p))
                (Num (Z p)), [])"
    by (intro general_case_value) simp_all
  assume "s = 1 \<or> s = - 1"
  with h show "fst (getPerpendicularAxis p s) \<noteq> SetXYZ (Num 0) (Num 0) (Num 0)"
    by (intro general_nonzero) simp_all
next
  assume "(s = 1 \<or> s = - 1)
       \<and> \<not> (X p = 0 \<and> Y p \<noteq> 0 \<and> \<bar>Y p\<bar> < \<bar>Z p\<bar>)
       \<and> \<not> (Y p = 0 \<and> X p \<noteq> 0 \<and> \<bar>X p\<bar> < \<bar>Z p\<bar>)"
  then show "fst (getPerpendicularAxis p s) = SetXYZ (Num 0) (Num 0) (Num 0) \<longleftrightarrow>
         (X p = 0 \<and> Y p = 0) \<or> (X p \<noteq> 0 \<and> Y p \<noteq> 0 \<and> quad_delta p < 0)"
    by (intro zero_vector_iff) simp_all
qed

theorem C2_invalid_input_recovery_witness:
  "getPerpendicularAxis \<lparr>X = 0, Y = 0, Z = 5\<rparr> 1 = (SetXYZ (Num 0) (Num 0) (Num 0), [])
   \<and> getPerpendicularAxis \<lparr>X = 0, Y = 0, Z = 5\<rparr> (- 1) = (SetXYZ (Num 0) (Num 0) (Num 0), [])
   \<and> quad_delta \<lparr>X = 1, Y = 1, Z = 2\<rparr> < 0
   \<and> getPerpendicularAxis \<lparr>X = 1, Y = 1, Z = 2\<rparr> 1 = (SetXYZ (Num 0) (Num 0) (Num 0),
        [LOGP warn ''Invalid input in getPerpendicularAxis: delta = {}, a = {}''])
   \<and> getPerpendicularAxis \<lparr>X = 0, Y = 1, Z = 0\<rparr> 1 = (SetXYZ (Num 1) (Num 0) (Num 0), [])
   \<and> getPerpendicularAxis \<lparr>X = 1, Y = 0, Z = 0\<rparr> (- 1) = (SetXYZ (Num 0) (Num (- 1)) (Num 0), [])
   \<and> getPerpendicularAxis \<lparr>X = 0, Y = 2, Z = 1\<rparr> 1 =
        (SetXYZ (Num (sqrt (15 / 4))) (Num (- 1 / 2)) (Num 1), [])
   \<and> fst (getPerpendicularAxis \<lparr>X = 0, Y = 2, Z = 1\<rparr> 1) \<noteq> SetXYZ (Num 0) (Num 0) (Num 0)
   \<and> getPerpendicularAxis \<lparr>X = 2, Y = 0, Z = 1\<rparr> (- 1) =
        (SetXYZ (Num (- 1 / 2)) (Num (- sqrt (15 / 4))) (Num 1), [])
   \<and> fst (getPerpendicularAxis \<lparr>X = 2, Y = 0, Z = 1\<rparr> (- 1)) \<noteq> SetXYZ (Num 0) (Num 0) (Num 0)
   \<and> 0 \<le> quad_delta \<lparr>X = 1, Y = 2, Z = 2\<rparr>
   \<and> getPerpendicularAxis \<lparr>X = 1, Y = 2, Z = 2\<rparr> 1 =
        (SetXYZ (Num (2 / 5)) (Num (- 11 / 5)) (Num 2), [])
   \<and> fst (getPerpendicularAxis \<lparr>X = 1, Y = 2, Z = 2\<rparr> 1) \<noteq> SetXYZ (Num 0) (Num 0) (Num 0)
   \<and> fst (getPerpendicularAxis \<lparr>X = 3, Y = 4, Z = 0\<rparr> (- 1)) \<noteq> SetXYZ (Num 0) (Num 0) (Num 0)"
proof -
  have d: "quad_delta \<lparr>X = 1, Y = 1, Z = 2\<rparr> < 0"
    by (simp add: quad_delta_def quad_a_def quad_b_def quad_c_def)
  have e: "\<not> quad_delta \<lparr>X = 3, Y = 4, Z = 0\<rparr> < 0"
    by (simp add: quad_delta_def quad_a_def quad_b_def quad_c_def)
  have zero: "getPerpendicularAxis \<lparr>X = 0, Y = 0, Z = 5\<rparr> 1 = (SetXYZ (Num 0) (Num 0) (Num 0), [])"
      "getPerpendicularAxis \<lparr>X = 0, Y = 0, Z = 5\<rparr> (- 1) = (SetXYZ (Num 0) (Num 0) (Num 0), [])"
    using C2_invalid_input_recovery [of "\<lparr>X = 0, Y = 0, Z = 5\<rparr>" 1]
      C2_invalid_input_recovery [of "\<lparr>X = 0, Y = 0, Z = 5\<rparr>" "- 1"]
    by simp_all
  have neg: "getPerpendicularAxis \<lparr>X = 1, Y = 1, Z = 2\<rparr> 1 = (SetXYZ (Num 0) (Num 0) (Num 0),
        [LOGP warn ''Invalid input in getPerpendicularAxis: delta = {}, a = {}''])"
    using d C2_invalid_input_recovery [of "\<lparr>X = 1, Y = 1, Z = 2\<rparr>" 1] by simp
  have flat: "getPerpendicularAxis \<lparr>X = 0, Y = 1, Z = 0\<rparr> 1 = (SetXYZ (Num 1) (Num 0) (Num 0), [])"
      "getPerpendicularAxis \<lparr>X = 1, Y = 0, Z = 0\<rparr> (- 1) = (SetXYZ (Num 0) (Num (- 1)) (Num 0), [])"
    using C2_invalid_input_recovery [of "\<lparr>X = 0, Y = 1, Z = 0\<rparr>" 1]
      C2_invalid_input_recovery [of "\<lparr>X = 1, Y = 0, Z = 0\<rparr>" "- 1"]
    by simp_all
  have r: "(2 * 2 - 1 * 1 * (1 * 1) / (2 * 2) :: real) = 15 / 4" by simp
  have dx: "getPerpendicularAxis \<lparr>X = 0, Y = 2, Z = 1\<rparr> 1 =
        (SetXYZ (Num (sqrt (15 / 4))) (Num (- 1 / 2)) (Num 1), [])
      \<and> fst (getPerpendicularAxis \<lparr>X = 0, Y = 2, Z = 1\<rparr> 1) \<noteq> SetXYZ (Num 0) (Num 0) (Num 0)"
    using C2_invalid_input_recovery [of "\<lparr>X = 0, Y = 2, Z = 1\<rparr>" 1] by (simp add: r SetXYZ_def)
  have dy: "getPerpendicularAxis \<lparr>X = 2, Y = 0, Z = 1\<rparr> (- 1) =
        (SetXYZ (Num (- 1 / 2)) (Num (- sqrt (15 / 4))) (Num 1), [])
      \<and> fst (getPerpendicularAxis \<lparr>X = 2, Y = 0, Z = 1\<rparr> (- 1)) \<noteq> SetXYZ (Num 0) (Num 0) (Num 0)"
    using C2_invalid_input_recovery [of "\<lparr>X = 2, Y = 0, Z = 1\<rparr>" "- 1"] by (simp add: r SetXYZ_def)
  have g: "0 \<le> quad_delta \<lparr>X = 1, Y = 2, Z = 2\<rparr>" by (simp add: quad_delta_1_2_2)
  have gen: "getPerpendicularAxis \<lparr>X = 1, Y = 2, Z = 2\<rparr> 1 =
        (SetXYZ (Num (2 / 5)) (Num (- 11 / 5)) (Num 2), [])
      \<and> fst (getPerpendicularAxis \<lparr>X = 1, Y = 2, Z = 2\<rparr> 1) \<noteq> SetXYZ (Num 0) (Num 0) (Num 0)"
    using g C2_invalid_input_recovery [of "\<lparr>X = 1, Y = 2, Z = 2\<rparr>" 1]
    by (simp add: quad_delta_1_2_2 sqrt_144 quad_a_def quad_b_def SetXYZ_def)
  have only: "fst (getPerpendicularAxis \<lparr>X = 3, Y = 4, Z = 0\<rparr> (- 1)) \<noteq> SetXYZ (Num 0) (Num 0) (Num 0)"
    using e C2_invalid_input_recovery [of "\<lparr>X = 3, Y = 4, Z = 0\<rparr>" "- 1",
        THEN conjunct2, THEN conjunct2, THEN conjunct2, THEN conjunct2, THEN conjunct2]
    by simp
  from zero d neg flat dx dy g gen only show ?thesis by (simp add: SetXYZ_def)
qed

subsection \<open>The two signs\<close>

lemma anti_parallel_iff:
  "anti_parallel u v \<longleftrightarrow> (\<exists>k<0. u = (k * fst v, k * snd v))"
proof
  assume ap: "anti_parallel u v"
  show "\<exists>k<0. u = (k * fst v, k * snd v)"
  proof (cases "u = (0, 0) \<and> v = (0, 0)")
    case True
    then have "u = (- 1 * fst v, - 1 * snd v)" by simp
    then show ?thesis by (metis neg_less_0_iff_less zero_less_one)
  next
    case False
    obtain a b where u: "u = (a, b)" by (cases u)
    obtain c d where v: "v = (c, d)" by (cases v)
    from ap False u v have cr: "a * d - b * c = 0" and dt: "a * c + b * d < 0"
      by (auto simp: anti_parallel_def)
    let ?n = "c * c + d * d"
    have npos: "0 < ?n"
      using dt by (auto simp: sum_squares_gt_zero_iff)
    let ?k = "(a * c + b * d) / ?n"
    have kneg: "?k < 0" using dt npos by (simp add: divide_neg_pos)
    have nz: "?n \<noteq> 0" using npos by linarith
    have ha: "a * ?n = (a * c + b * d) * c" using cr by algebra
    have "a = (a * ?n) / ?n" by (simp only: nonzero_mult_div_cancel_right [OF nz])
    also have "\<dots> = ?k * c" by (simp only: ha times_divide_eq_left)
    finally have ea: "a = ?k * c" .
    have hb: "b * ?n = (a * c + b * d) * d" using cr by algebra
    have "b = (b * ?n) / ?n" by (simp only: nonzero_mult_div_cancel_right [OF nz])
    also have "\<dots> = ?k * d" by (simp only: hb times_divide_eq_left)
    finally have eb: "b = ?k * d" .
    from kneg ea eb u v show ?thesis by auto
  qed
next
  assume "\<exists>k<0. u = (k * fst v, k * snd v)"
  then obtain k where k: "k < 0" and u: "u = (k * fst v, k * snd v)" by blast
  show "anti_parallel u v"
  proof (cases "v = (0, 0)")
    case True
    with u show ?thesis by (simp add: anti_parallel_def)
  next
    case False
    then have "0 < fst v * fst v + snd v * snd v"
      by (cases v) (simp add: sum_squares_gt_zero_iff)
    then have "k * (fst v * fst v + snd v * snd v) < 0" using k by (simp add: mult_neg_pos)
    with u show ?thesis by (simp add: anti_parallel_def algebra_simps)
  qed
qed

lemma transverse_SetXYZ [simp]: "transverse (SetXYZ (Num x) (Num y) z) = Some (x, y)"
  by (simp add: transverse_def SetXYZ_def)

lemma anti_parallel_neg: "anti_parallel (x, y) (- x, - y)"
  unfolding anti_parallel_iff
  by (rule exI [of _ "- 1"]) simp

lemma axes_1_2_2:
  "transverse (fst (getPerpendicularAxis \<lparr>X = 1, Y = 2, Z = 2\<rparr> 1)) = Some (2 / 5, - 11 / 5)"
  "transverse (fst (getPerpendicularAxis \<lparr>X = 1, Y = 2, Z = 2\<rparr> (- 1))) = Some (- 2, - 1)"
  by (simp_all add: getPerpendicularAxis_def Let_def std_sqrt_def fp_map_def quad_delta_1_2_2
      sqrt_144 quad_a_def quad_b_def)

text \<open>
  C3 (as stated, refuted). For the jet momentum \<open>p = (1, 2, 2)\<close> the discriminant is 144,
  sign \<open>+1\<close> gives the transverse components \<open>(2/5, -11/5)\<close> and sign \<open>-1\<close> gives
  \<open>(-2, -1)\<close>: the first is not a negative multiple of the second.
\<close>

theorem C3_anti_parallel_counterexample:
  "transverse (fst (getPerpendicularAxis \<lparr>X = 1, Y = 2, Z = 2\<rparr> 1)) = Some (2 / 5, - 11 / 5)
   \<and> transverse (fst (getPerpendicularAxis \<lparr>X = 1, Y = 2, Z = 2\<rparr> (- 1))) = Some (- 2, - 1)
   \<and> \<not> anti_parallel (2 / 5, - 11 / 5) (- 2, - 1)"
  by (simp add: axes_1_2_2 anti_parallel_def)

lemma opposite_when_pz_zero:
  assumes "Z p = 0"
  shows "\<exists>ux uy. transverse (fst (getPerpendicularAxis p 1)) = Some (ux, uy)
               \<and> transverse (fst (getPerpendicularAxis p (- 1))) = Some (- ux, - uy)
               \<and> anti_parallel (ux, uy) (- ux, - uy)"
proof -
  consider (both) "X p = 0" "Y p = 0" | (px) "X p = 0" "Y p \<noteq> 0"
    | (py) "Y p = 0" "X p \<noteq> 0" | (gen) "X p \<noteq> 0" "Y p \<noteq> 0"
    by blast
  then have "\<exists>ux uy. transverse (fst (getPerpendicularAxis p 1)) = Some (ux, uy)
               \<and> transverse (fst (getPerpendicularAxis p (- 1))) = Some (- ux, - uy)"
  proof cases
    case both
    then show ?thesis by (simp add: both_zero_value)
  next
    case px
    then show ?thesis
      using assms by (simp add: px_zero_value std_sqrt_def fp_map_def)
  next
    case py
    then show ?thesis
      using assms by (simp add: py_zero_value std_sqrt_def fp_map_def SetXYZ_def transverse_def)
  next
    case gen
    have "0 \<le> quad_delta p"
      using assms by (simp add: quad_delta_factor)
    with gen show ?thesis
      using assms by (simp add: general_case_value quad_b_def)
  qed
  then show ?thesis using anti_parallel_neg by blast
qed

text \<open>
  In the general case a negative multiple is excluded when \<open>pz \<noteq> 0\<close>: both solutions have
  the same product \<open>- pz\<^sup>2\<close> with the jet's transverse momentum, which a negative multiple
  would turn into its opposite.
\<close>

lemma not_anti_parallel_general:
  assumes "X p \<noteq> 0" and "Y p \<noteq> 0" and "0 \<le> quad_delta p" and "Z p \<noteq> 0"
    and "transverse (fst (getPerpendicularAxis p 1)) = Some u"
    and "transverse (fst (getPerpendicularAxis p (- 1))) = Some v"
  shows "\<not> anti_parallel u v"
proof
  assume "anti_parallel u v"
  then obtain k where k: "k < 0" and u: "u = (k * fst v, k * snd v)"
    unfolding anti_parallel_iff by blast
  let ?f = "\<lambda>s. (- quad_b p + s * sqrt (quad_delta p)) / (2 * quad_a p)"
  let ?g = "\<lambda>s. (- (Z p * Z p) - X p * ?f s) / Y p"
  have ue: "u = (?f 1, ?g 1)" and ve: "v = (?f (- 1), ?g (- 1))"
    using assms by (simp_all add: general_case_value)
  have c: "\<And>s. ?f s * X p + ?g s * Y p = - (Z p * Z p)"
    using assms(2) by (simp add: mult.commute)
  have "fst u * X p + snd u * Y p = k * (fst v * X p + snd v * Y p)"
    using u by (simp add: algebra_simps)
  then have "- (Z p * Z p) = k * (- (Z p * Z p))"
    using c [of 1] c [of "- 1"] unfolding ue ve fst_conv snd_conv by simp
  then have "k = 1" using assms(4) by simp
  with k show False by simp
qed

text \<open>
  The two solutions of the general case are mirror images about the jet's transverse
  direction \<open>(px, py)\<close>: equal products with it, opposite cross products.
\<close>

lemma general_case_mirror:
  assumes "X p \<noteq> 0" and "Y p \<noteq> 0" and "0 \<le> quad_delta p"
    and "transverse (fst (getPerpendicularAxis p 1)) = Some u"
    and "transverse (fst (getPerpendicularAxis p (- 1))) = Some v"
  shows "fst u * X p + snd u * Y p = - (Z p)\<^sup>2"
    and "fst v * X p + snd v * Y p = - (Z p)\<^sup>2"
    and "fst u * Y p - snd u * X p = - (fst v * Y p - snd v * X p)"
proof -
  let ?r = "sqrt (quad_delta p)"
  let ?f = "\<lambda>s. (- quad_b p + s * ?r) / (2 * quad_a p)"
  let ?g = "\<lambda>s. (- (Z p * Z p) - X p * ?f s) / Y p"
  have ue: "u = (?f 1, ?g 1)" and ve: "v = (?f (- 1), ?g (- 1))"
    using assms by (simp_all add: general_case_value)
  have a0: "quad_a p \<noteq> 0" using quad_a_pos [of p] assms(1) by simp
  have dot: "\<And>s. ?f s * X p + ?g s * Y p = - (Z p)\<^sup>2"
    using assms(2) by (simp add: mult.commute power2_eq_square)
  show "fst u * X p + snd u * Y p = - (Z p)\<^sup>2"
    unfolding ue fst_conv snd_conv by (rule dot)
  show "fst v * X p + snd v * Y p = - (Z p)\<^sup>2"
    unfolding ve fst_conv snd_conv by (rule dot)
  have fa: "\<And>s. ?f s * quad_a p = (- quad_b p + s * ?r) / 2"
    using a0 by simp
  have alg: "\<And>f. f * (Y p * Y p) - (- (Z p * Z p) - X p * f) * X p
                 = f * quad_a p + Z p * Z p * X p"
    by (simp add: quad_a_def algebra_simps)
  have cross: "\<And>s. (?f s * Y p - ?g s * X p) * Y p = s * ?r / 2"
  proof -
    fix s
    have "(?f s * Y p - ?g s * X p) * Y p = ?f s * (Y p * Y p) - (?g s * Y p) * X p"
      by (simp add: algebra_simps)
    also have "?g s * Y p = - (Z p * Z p) - X p * ?f s"
      using assms(2) by simp
    also have "?f s * (Y p * Y p) - (- (Z p * Z p) - X p * ?f s) * X p
                 = ?f s * quad_a p + Z p * Z p * X p"
      by (rule alg)
    also have "\<dots> = s * ?r / 2"
      unfolding fa by (simp add: quad_b_def field_simps)
    finally show "(?f s * Y p - ?g s * X p) * Y p = s * ?r / 2" .
  qed
  define c1 where "c1 = ?f 1 * Y p - ?g 1 * X p"
  define c2 where "c2 = ?f (- 1) * Y p - ?g (- 1) * X p"
  have "c1 * Y p = ?r / 2" and "c2 * Y p = - ?r / 2"
    unfolding c1_def c2_def using cross [of 1] cross [of "- 1"] by simp_all
  then have "(c1 + c2) * Y p = 0" by (simp add: algebra_simps)
  then have "c1 = - c2" using assms(2) by simp
  then show "fst u * Y p - snd u * X p = - (fst v * Y p - snd v * X p)"
    unfolding ue ve fst_conv snd_conv c1_def c2_def .
qed

text \<open>
  C3 (amended). The transverse components for sign \<open>+1\<close> are the exact opposite of those
  for sign \<open>-1\<close>, hence a negative multiple of them, for every jet momentum vector with
  \<open>pz = 0\<close>. In the general case with a discriminant that is not negative, the two
  transverse vectors have the same product \<open>- pz\<^sup>2\<close> with \<open>(px, py)\<close> and opposite cross
  products with it, and one is a negative multiple of the other exactly when \<open>pz = 0\<close>.
\<close>

theorem C3_mirror_axes:
  "(Z p = 0 \<longrightarrow>
      (\<exists>ux uy. transverse (fst (getPerpendicularAxis p 1)) = Some (ux, uy)
               \<and> transverse (fst (getPerpendicularAxis p (- 1))) = Some (- ux, - uy)
               \<and> anti_parallel (ux, uy) (- ux, - uy)))
   \<and> (X p \<noteq> 0 \<and> Y p \<noteq> 0 \<and> 0 \<le> quad_delta p \<longrightarrow>
      (\<exists>u v. transverse (fst (getPerpendicularAxis p 1)) = Some u
             \<and> transverse (fst (getPerpendicularAxis p (- 1))) = Some v
             \<and> fst u * X p + snd u * Y p = - (Z p)\<^sup>2
             \<and> fst v * X p + snd v * Y p = - (Z p)\<^sup>2
             \<and> fst u * Y p - snd u * X p = - (fst v * Y p - snd v * X p)
             \<and> (anti_parallel u v \<longleftrightarrow> Z p = 0)))"
proof (intro conjI impI)
  assume "Z p = 0"
  then show "\<exists>ux uy. transverse (fst (getPerpendicularAxis p 1)) = Some (ux, uy)
               \<and> transverse (fst (getPerpendicularAxis p (- 1))) = Some (- ux, - uy)
               \<and> anti_parallel (ux, uy) (- ux, - uy)"
    by (rule opposite_when_pz_zero)
next
  assume "X p \<noteq> 0 \<and> Y p \<noteq> 0 \<and> 0 \<le> quad_delta p"
  then have g: "X p \<noteq> 0" "Y p \<noteq> 0" "0 \<le> quad_delta p" by simp_all
  obtain u v where u: "transverse (fst (getPerpendicularAxis p 1)) = Some u"
    and v: "transverse (fst (getPerpendicularAxis p (- 1))) = Some v"
    using g by (simp add: general_case_value)
  have ap: "anti_parallel u v \<longleftrightarrow> Z p = 0"
  proof
    assume "anti_parallel u v"
    then show "Z p = 0" using not_anti_parallel_general [OF g _ u v] by blast
  next
    assume "Z p = 0"
    then obtain ux uy where "transverse (fst (getPerpendicularAxis p 1)) = Some (ux, uy)"
      and "transverse (fst (getPerpendicularAxis p (- 1))) = Some (- ux, - uy)"
      and "anti_parallel (ux, uy) (- ux, - uy)"
      using opposite_when_pz_zero [of p] by blast
    with u v show "anti_parallel u v" by simp
  qed
  from u v ap general_case_mirror [OF g u v]
  show "\<exists>u v. transverse (fst (getPerpendicularAxis p 1)) = Some u
             \<and> transverse (fst (getPerpendicularAxis p (- 1))) = Some v
             \<and> fst u * X p + snd u * Y p = - (Z p)\<^sup>2
             \<and> fst v * X p + snd v * Y p = - (Z p)\<^sup>2
             \<and> fst u * Y p - snd u * X p = - (fst v * Y p - snd v * X p)
             \<and> (anti_parallel u v \<longleftrightarrow> Z p = 0)"
    by blast
qed

theorem C3_mirror_axes_witness:
  "Z \<lparr>X = 3, Y = 4, Z = 0 :: real\<rparr> = 0
   \<and> (\<exists>ux uy. transverse (fst (getPerpendicularAxis \<lparr>X = 3, Y = 4, Z = 0\<rparr> 1)) = Some (ux, uy)
               \<and> transverse (fst (getPerpendicularAxis \<lparr>X = 3, Y = 4, Z = 0\<rparr> (- 1))) = Some (- ux, - uy)
               \<and> anti_parallel (ux, uy) (- ux, - uy))
   \<and> X \<lparr>X = 1, Y = 2, Z = 2 :: real\<rparr> \<noteq> 0 \<and> Y \<lparr>X = 1, Y = 2, Z = 2 :: real\<rparr> \<noteq> 0
   \<and> 0 \<le> quad_delta \<lparr>X = 1, Y = 2, Z = 2\<rparr>
   \<and> transverse (fst (getPerpendicularAxis \<lparr>X = 1, Y = 2, Z = 2\<rparr> 1)) = Some (2 / 5, - 11 / 5)
   \<and> transverse (fst (getPerpendicularAxis \<lparr>X = 1, Y = 2, Z = 2\<rparr> (- 1))) = Some (- 2, - 1)
   \<and> \<not> anti_parallel (2 / 5, - 11 / 5) (- 2, - 1)"
proof -
  let ?p = "\<lparr>X = 3, Y = 4, Z = 0 :: real\<rparr>"
  let ?q = "\<lparr>X = 1, Y = 2, Z = 2 :: real\<rparr>"
  have z: "Z ?p = 0" by simp
  have o: "\<exists>ux uy. transverse (fst (getPerpendicularAxis ?p 1)) = Some (ux, uy)
               \<and> transverse (fst (getPerpendicularAxis ?p (- 1))) = Some (- ux, - uy)
               \<and> anti_parallel (ux, uy) (- ux, - uy)"
    by (rule C3_mirror_axes [of ?p, THEN conjunct1, THEN mp, OF z])
  have g: "X ?q \<noteq> 0 \<and> Y ?q \<noteq> 0 \<and> 0 \<le> quad_delta ?q"
    by (simp add: quad_delta_1_2_2)
  obtain u v where u: "transverse (fst (getPerpendicularAxis ?q 1)) = Some u"
    and v: "transverse (fst (getPerpendicularAxis ?q (- 1))) = Some v"
    and ap: "anti_parallel u v \<longleftrightarrow> Z ?q = 0"
    using C3_mirror_axes [of ?q, THEN conjunct2, THEN mp, OF g] by blast
  from u v have "u = (2 / 5, - 11 / 5)" and "v = (- 2, - 1)"
    by (simp_all add: axes_1_2_2)
  with ap have n: "\<not> anti_parallel (2 / 5, - 11 / 5) (- 2, - 1)" by simp
  from z o g axes_1_2_2 n show ?thesis by (intro conjI) simp_all
qed

section \<open>Properties of getDeltaPhi\<close>

lemma Phi_0_2pi_range: "0 \<le> Phi_0_2pi x \<and> Phi_0_2pi x < TwoPI"
proof -
  have tp: "0 < TwoPI" by (simp add: TwoPI_def)
  let ?n = "\<lfloor>x / TwoPI\<rfloor>"
  have "of_int ?n \<le> x / TwoPI" by (rule of_int_floor_le)
  then have lo: "TwoPI * of_int ?n \<le> x"
    using tp by (metis pos_le_divide_eq mult.commute)
  have "x / TwoPI < of_int ?n + 1" by linarith
  then have hi: "x < TwoPI * (of_int ?n + 1)"
    using tp by (metis pos_divide_less_eq mult.commute)
  from lo hi show ?thesis
    by (simp add: Phi_0_2pi_def algebra_simps)
qed

lemma Phi_0_2pi_id: "0 \<le> x \<Longrightarrow> x < TwoPI \<Longrightarrow> Phi_0_2pi x = x"
proof -
  assume a: "0 \<le> x" "x < TwoPI"
  then have tp: "0 < TwoPI" by simp
  have "\<lfloor>x / TwoPI\<rfloor> = 0"
    using a tp by (simp add: floor_eq_iff)
  then show ?thesis by (simp add: Phi_0_2pi_def)
qed

lemma Phi_0_2pi_TwoPI: "Phi_0_2pi TwoPI = 0"
  by (simp add: Phi_0_2pi_def TwoPI_def)

lemma getDeltaPhi_cases:
  "getDeltaPhi a b =
     (if \<bar>Phi_0_2pi a - Phi_0_2pi b\<bar> \<le> PI then \<bar>Phi_0_2pi a - Phi_0_2pi b\<bar>
      else TwoPI - \<bar>Phi_0_2pi a - Phi_0_2pi b\<bar>)"
  by (simp add: getDeltaPhi_def Let_def)

text \<open>
  C4. The angular distance is symmetric in its two arguments and lies in \<open>[0, \<pi>]\<close>, for
  all real angles.
\<close>

theorem C4_getDeltaPhi_symmetric_bounded:
  "getDeltaPhi a b = getDeltaPhi b a \<and> 0 \<le> getDeltaPhi a b \<and> getDeltaPhi a b \<le> pi"
proof -
  have sym: "\<bar>Phi_0_2pi a - Phi_0_2pi b\<bar> = \<bar>Phi_0_2pi b - Phi_0_2pi a\<bar>"
    by (rule abs_minus_commute)
  have d: "\<bar>Phi_0_2pi a - Phi_0_2pi b\<bar> < TwoPI"
    using Phi_0_2pi_range [of a] Phi_0_2pi_range [of b] by linarith
  have "getDeltaPhi a b = getDeltaPhi b a"
    by (simp only: getDeltaPhi_cases sym)
  moreover have "0 \<le> getDeltaPhi a b"
    using d by (simp add: getDeltaPhi_cases)
  moreover have "getDeltaPhi a b \<le> pi"
    using d by (simp add: getDeltaPhi_cases PI_def TwoPI_def)
  ultimately show ?thesis by simp
qed

text \<open>
  C5. The code computes the reduction the specification describes, on every pair of
  angles; \<open>getDeltaPhi 0.1 (2\<pi> - 0.1)\<close> is \<open>0.2\<close>; and the boundary values \<open>0\<close> and
  \<open>2\<pi>\<close> are at distance \<open>0\<close> from each other, not near \<open>2\<pi>\<close>.
\<close>

theorem C5_getDeltaPhi_reduction:
  "getDeltaPhi a b = AngularMetric_spec a b
   \<and> getDeltaPhi (1 / 10) (2 * pi - 1 / 10) = 2 / 10
   \<and> getDeltaPhi 0 (2 * pi) = 0
   \<and> getDeltaPhi (2 * pi) 0 = 0"
proof -
  have pi3: "2 \<le> pi" by (rule pi_ge_two)
  have r: "getDeltaPhi a b = AngularMetric_spec a b"
    by (simp add: getDeltaPhi_cases AngularMetric_spec_def Let_def PI_def TwoPI_def)
  have p1: "Phi_0_2pi (1 / 10) = 1 / 10"
    using pi3 by (intro Phi_0_2pi_id) (simp_all add: TwoPI_def)
  have p2: "Phi_0_2pi (2 * pi - 1 / 10) = 2 * pi - 1 / 10"
    using pi3 by (intro Phi_0_2pi_id) (simp_all add: TwoPI_def)
  have w: "getDeltaPhi (1 / 10) (2 * pi - 1 / 10) = 2 / 10"
    using pi3 by (simp add: getDeltaPhi_cases p1 p2 PI_def TwoPI_def)
  have z0: "Phi_0_2pi 0 = 0" by (simp add: Phi_0_2pi_def)
  have z1: "Phi_0_2pi (2 * pi) = 0" using Phi_0_2pi_TwoPI by (simp add: TwoPI_def)
  have b1: "getDeltaPhi 0 (2 * pi) = 0" and b2: "getDeltaPhi (2 * pi) 0 = 0"
    by (simp_all add: getDeltaPhi_cases z0 z1 PI_def)
  from r w b1 b2 show ?thesis by simp
qed

section \<open>Properties of getCorrectedPt\<close>

text \<open>
  C6. With a null response matrix the input comes back unchanged, for every input value
  and generator state; one log line of severity \<open>error\<close> is written, the generator is not
  used, and the call returns.
\<close>

theorem C6_null_matrix_identity:
  "getCorrectedPt ptRec None gen =
     (ptRec, [LOGP error ''Response matrix is null. Returning uncorrected pt.''], gen)"
  by (simp add: getCorrectedPt_def)

lemma FindBin_outside:
  "x < fXmin ax \<or> fXmax ax \<le> x \<Longrightarrow> FindBin ax x < 1 \<or> FindBin ax x > fNbins ax"
  by (auto simp: FindBin_def)

text \<open>
  C7. With a response matrix present, an input below the lower edge or at or above the
  upper edge of the reconstructed-pt axis comes back unchanged (one log line is written,
  the call returns), and so does an input whose bin has a projection without entries (no
  log line). The generator is not used in either case.
\<close>

theorem C7_out_of_range_or_empty_identity:
  "(ptRec < fXmin (GetXaxis h) \<or> fXmax (GetXaxis h) \<le> ptRec \<longrightarrow>
      getCorrectedPt ptRec (Some h) gen =
        (ptRec, [LOGP error ''Bin index out of range: binX = {}''], gen))
   \<and> (GetEntries (ProjectionY h (FindBin (GetXaxis h) ptRec) (FindBin (GetXaxis h) ptRec)) = 0 \<longrightarrow>
      fst (getCorrectedPt ptRec (Some h) gen) = ptRec
      \<and> snd (snd (getCorrectedPt ptRec (Some h) gen)) = gen)
   \<and> (1 \<le> FindBin (GetXaxis h) ptRec \<and> FindBin (GetXaxis h) ptRec \<le> GetNbinsX h
      \<and> GetEntries (ProjectionY h (FindBin (GetXaxis h) ptRec) (FindBin (GetXaxis h) ptRec)) = 0 \<longrightarrow>
      getCorrectedPt ptRec (Some h) gen = (ptRec, [], gen))"
proof (intro conjI impI)
  assume "ptRec < fXmin (GetXaxis h) \<or> fXmax (GetXaxis h) \<le> ptRec"
  then have "FindBin (GetXaxis h) ptRec < 1 \<or> FindBin (GetXaxis h) ptRec > GetNbinsX h"
    unfolding GetNbinsX_def by (rule FindBin_outside)
  then show "getCorrectedPt ptRec (Some h) gen =
        (ptRec, [LOGP error ''Bin index out of range: binX = {}''], gen)"
    by (simp add: getCorrectedPt_def Let_def)
next
  assume e: "GetEntries (ProjectionY h (FindBin (GetXaxis h) ptRec) (FindBin (GetXaxis h) ptRec)) = 0"
  then show "fst (getCorrectedPt ptRec (Some h) gen) = ptRec"
    by (simp add: getCorrectedPt_def Let_def)
  from e show "snd (snd (getCorrectedPt ptRec (Some h) gen)) = gen"
    by (simp add: getCorrectedPt_def Let_def)
next
  assume "1 \<le> FindBin (GetXaxis h) ptRec \<and> FindBin (GetXaxis h) ptRec \<le> GetNbinsX h
      \<and> GetEntries (ProjectionY h (FindBin (GetXaxis h) ptRec) (FindBin (GetXaxis h) ptRec)) = 0"
  then show "getCorrectedPt ptRec (Some h) gen = (ptRec, [], gen)"
    by (simp add: getCorrectedPt_def Let_def)
qed

lemma example_matrix_bins:
  "FindBin (GetXaxis example_matrix) (- 1) = 0"
  "FindBin (GetXaxis example_matrix) 12 = 3"
  "FindBin (GetXaxis example_matrix) 3 = 1"
  "FindBin (GetXaxis example_matrix) 7 = 2"
  by (simp_all add: example_matrix_def FindBin_def)

theorem C7_out_of_range_or_empty_identity_witness:
  "getCorrectedPt (- 1) (Some example_matrix) 0 =
      (- 1, [LOGP error ''Bin index out of range: binX = {}''], 0)
   \<and> getCorrectedPt 12 (Some example_matrix) 0 =
      (12, [LOGP error ''Bin index out of range: binX = {}''], 0)
   \<and> GetEntries (ProjectionY example_matrix 1 1) = 0
   \<and> getCorrectedPt 3 (Some example_matrix) 0 = (3, [], 0)"
proof -
  have e: "GetEntries (ProjectionY example_matrix 1 1) = 0"
    by (simp add: example_matrix_def)
  have n: "GetNbinsX example_matrix = 2"
    by (simp add: GetNbinsX_def example_matrix_def)
  have a: "fXmin (GetXaxis example_matrix) = 0" "fXmax (GetXaxis example_matrix) = 10"
    by (simp_all add: example_matrix_def)
  show ?thesis
    using e n a example_matrix_bins
      C7_out_of_range_or_empty_identity [of "- 1" example_matrix 0]
      C7_out_of_range_or_empty_identity [of 12 example_matrix 0]
      C7_out_of_range_or_empty_identity [of 3 example_matrix 0]
    by simp
qed

text \<open>The remaining path draws a sample and adds it: the model is not the identity.\<close>

lemma getCorrectedPt_example_draw:
  "getCorrectedPt 7 (Some example_matrix) 4 = (11, [], 5)"
  by (simp add: getCorrectedPt_def Let_def example_matrix_bins GetNbinsX_def)
    (simp add: example_matrix_def)

section \<open>Properties of the cone test\<close>

lemma getDeltaPhi_same: "getDeltaPhi a a = 0"
  by (simp add: getDeltaPhi_cases PI_def)

lemma outsideUeCones_iff:
  "outsideUeCones te tp e1 p1 e2 p2 R \<longleftrightarrow>
     R < sqrt ((te - e1)\<^sup>2 + (getDeltaPhi tp p1)\<^sup>2)
     \<and> R < sqrt ((te - e2)\<^sup>2 + (getDeltaPhi tp p2)\<^sup>2)"
  by (simp add: outsideUeCones_def Let_def power2_eq_square)

text \<open>
  C8. A track passes the cone test of the loop exactly when its distance
  \<open>\<surd>(\<Delta>eta\<^sup>2 + \<Delta>phi\<^sup>2)\<close> to one of the two axes is at most the radius, with \<open>\<Delta>phi\<close>
  computed by \<open>getDeltaPhi\<close>. A track in the direction of an axis is inside for every
  radius \<open>\<ge> 0\<close>, and a track at distance exactly the radius from an axis is inside.
\<close>

theorem C8_cone_membership:
  "(\<not> outsideUeCones te tp e1 p1 e2 p2 R \<longleftrightarrow>
      sqrt ((te - e1)\<^sup>2 + (getDeltaPhi tp p1)\<^sup>2) \<le> R
      \<or> sqrt ((te - e2)\<^sup>2 + (getDeltaPhi tp p2)\<^sup>2) \<le> R)
   \<and> (0 \<le> R \<longrightarrow> \<not> outsideUeCones e1 p1 e1 p1 e2 p2 R \<and> \<not> outsideUeCones e2 p2 e1 p1 e2 p2 R)
   \<and> (sqrt ((te - e1)\<^sup>2 + (getDeltaPhi tp p1)\<^sup>2) = R \<longrightarrow> \<not> outsideUeCones te tp e1 p1 e2 p2 R)
   \<and> (sqrt ((te - e2)\<^sup>2 + (getDeltaPhi tp p2)\<^sup>2) = R \<longrightarrow> \<not> outsideUeCones te tp e1 p1 e2 p2 R)"
proof (intro conjI impI)
  show "\<not> outsideUeCones te tp e1 p1 e2 p2 R \<longleftrightarrow>
      sqrt ((te - e1)\<^sup>2 + (getDeltaPhi tp p1)\<^sup>2) \<le> R
      \<or> sqrt ((te - e2)\<^sup>2 + (getDeltaPhi tp p2)\<^sup>2) \<le> R"
    unfolding outsideUeCones_iff by auto
next
  assume "0 \<le> R"
  then show "\<not> outsideUeCones e1 p1 e1 p1 e2 p2 R"
    unfolding outsideUeCones_iff by (simp add: getDeltaPhi_same)
  from \<open>0 \<le> R\<close> show "\<not> outsideUeCones e2 p2 e1 p1 e2 p2 R"
    unfolding outsideUeCones_iff by (simp add: getDeltaPhi_same)
next
  assume "sqrt ((te - e1)\<^sup>2 + (getDeltaPhi tp p1)\<^sup>2) = R"
  then show "\<not> outsideUeCones te tp e1 p1 e2 p2 R"
    unfolding outsideUeCones_iff by simp
next
  assume "sqrt ((te - e2)\<^sup>2 + (getDeltaPhi tp p2)\<^sup>2) = R"
  then show "\<not> outsideUeCones te tp e1 p1 e2 p2 R"
    unfolding outsideUeCones_iff by simp
qed

theorem C8_cone_membership_witness:
  "(0::real) \<le> 3 / 10
   \<and> \<not> outsideUeCones (1 / 2) 1 (1 / 2) 1 2 4 (3 / 10)
   \<and> \<not> outsideUeCones 2 4 (1 / 2) 1 2 4 (3 / 10)
   \<and> sqrt ((8 / 10 - 1 / 2)\<^sup>2 + (getDeltaPhi 1 1)\<^sup>2) = 3 / 10
   \<and> \<not> outsideUeCones (8 / 10) 1 (1 / 2) 1 2 4 (3 / 10)
   \<and> sqrt ((23 / 10 - 2)\<^sup>2 + (getDeltaPhi 4 4)\<^sup>2) = 3 / 10
   \<and> \<not> outsideUeCones (23 / 10) 4 (1 / 2) 1 2 4 (3 / 10)"
proof -
  have r: "(0::real) \<le> 3 / 10" by simp
  have d1: "sqrt ((8 / 10 - 1 / 2)\<^sup>2 + (getDeltaPhi 1 1)\<^sup>2) = 3 / 10"
    by (simp add: getDeltaPhi_same)
  have d2: "sqrt ((23 / 10 - 2)\<^sup>2 + (getDeltaPhi 4 4)\<^sup>2) = 3 / 10"
    by (simp add: getDeltaPhi_same)
  show ?thesis
    using r d1 d2
      C8_cone_membership [of "1 / 2" 1 "1 / 2" 1 2 4 "3 / 10"]
      C8_cone_membership [of "8 / 10" 1 "1 / 2" 1 2 4 "3 / 10"]
      C8_cone_membership [of "23 / 10" 4 "1 / 2" 1 2 4 "3 / 10"]
    by simp
qed

section \<open>Properties of the background subtraction\<close>

text \<open>
  C9. The background-subtracted pt is \<open>pt_raw - area \<cdot> density\<close> for every jet pt, area and
  density, and \<open>15\<close> for \<open>pt_raw = 20\<close>, \<open>area = 0.5\<close>, \<open>density = 10\<close>.
\<close>

theorem C9_background_subtraction:
  "doRhoAreaSub_pt pt_raw a rho rhoM = pt_raw - a * rho
   \<and> doRhoAreaSub_pt 20 (1 / 2) 10 rhoM = 15"
  by (simp add: doRhoAreaSub_pt_def)

text \<open>Its use in the jet selection, without a response matrix.\<close>

lemma jetPtBelowThreshold_null:
  "jetPtBelowThreshold m jet_pt a rho rhoM None gen =
     (jet_pt - a * rho < m,
      [LOGP error ''Response matrix is null. Returning uncorrected pt.''], gen)"
  by (simp add: jetPtBelowThreshold_def getCorrectedPt_def doRhoAreaSub_pt_def)

section \<open>Properties of the underlying-event loop\<close>

lemma ueLoop_concat:
  "ueLoop cfg e1 p1 e2 p2 R tracks reg =
     reg @ concat (map (ueTrackFills cfg e1 p1 e2 p2 R) tracks)"
  by (induction tracks arbitrary: reg) simp_all

lemma outsideUeCones_swap:
  "outsideUeCones te tp e1 p1 e2 p2 R = outsideUeCones te tp e2 p2 e1 p1 R"
  unfolding outsideUeCones_iff by auto

lemma hist_ueDcaFill:
  "distinct (map hist (ueDcaFill cfg t))"
  "set (map hist (ueDcaFill cfg t)) \<subseteq> {''antiproton_dca_ue''}"
  by (auto simp: ueDcaFill_def Let_def)

lemma hist_ueAntimatterFills:
  "distinct (map hist (ueAntimatterFills cfg t))"
  "set (map hist (ueAntimatterFills cfg t)) \<subseteq>
     {''antiproton_ue_tpc'', ''antiproton_ue_tof'', ''antideuteron_ue_tpc'',
      ''antideuteron_ue_tof'', ''antihelium3_ue_tpc''}"
  by (auto simp: ueAntimatterFills_def Let_def)

lemma hist_ueMatterFills:
  "distinct (map hist (ueMatterFills cfg t))"
  "set (map hist (ueMatterFills cfg t)) \<subseteq> {''deuteron_ue_tof'', ''helium3_ue_tpc''}"
  by (auto simp: ueMatterFills_def Let_def)

lemma disjoint_subsets:
  "A \<subseteq> A' \<Longrightarrow> B \<subseteq> B' \<Longrightarrow> A' \<inter> B' = {} \<Longrightarrow> A \<inter> B = {}"
  by blast

lemma hist_blocks_disjoint:
  "set (map hist (ueDcaFill cfg t)) \<inter> set (map hist (ueAntimatterFills cfg t)) = {}"
  "set (map hist (ueDcaFill cfg t)) \<inter> set (map hist (ueMatterFills cfg t)) = {}"
  "set (map hist (ueAntimatterFills cfg t)) \<inter> set (map hist (ueMatterFills cfg t)) = {}"
proof -
  show "set (map hist (ueDcaFill cfg t)) \<inter> set (map hist (ueAntimatterFills cfg t)) = {}"
    by (rule disjoint_subsets [OF hist_ueDcaFill(2) hist_ueAntimatterFills(2)]) simp
  show "set (map hist (ueDcaFill cfg t)) \<inter> set (map hist (ueMatterFills cfg t)) = {}"
    by (rule disjoint_subsets [OF hist_ueDcaFill(2) hist_ueMatterFills(2)]) simp
  show "set (map hist (ueAntimatterFills cfg t)) \<inter> set (map hist (ueMatterFills cfg t)) = {}"
    by (rule disjoint_subsets [OF hist_ueAntimatterFills(2) hist_ueMatterFills(2)]) simp
qed

lemma distinct_hist_ueFills: "distinct (map hist (ueFills cfg t))"
proof -
  have "distinct (map hist (ueDcaFill cfg t) @ map hist (ueAntimatterFills cfg t)
          @ map hist (ueMatterFills cfg t))"
    using hist_blocks_disjoint [of cfg t] hist_ueDcaFill(1) [of cfg t]
      hist_ueAntimatterFills(1) [of cfg t] hist_ueMatterFills(1) [of cfg t]
    by (simp only: distinct_append set_append Int_Un_distrib Un_empty simp_thms)
  then show ?thesis
    using hist_ueDcaFill(1) [of cfg t] by (simp add: ueFills_def Let_def)
qed

lemma ueTrackFills_cases:
  "ueTrackFills cfg e1 p1 e2 p2 R t =
     (if passedTrackSelection cfg t \<and> \<not> outsideUeCones (eta t) (phi t) e1 p1 e2 p2 R
      then ueFills cfg t else [])"
  by (simp add: ueTrackFills_def)

text \<open>
  C10. The loop visits each track of the table once and appends that track's fills to the
  registry. A track's fills name each histogram at most once. They depend on the two cones
  only through the union test: for any two placements of the cones in which the track is
  inside at least one cone, in particular inside both cones and inside one only, the
  fills are the same list; exchanging the two axes changes nothing. The fills themselves
  (\<open>ueFills\<close>) are computed from the track and the configuration alone.
\<close>

theorem C10_ue_cones_union:
  "ueLoop cfg e1 p1 e2 p2 R tracks reg =
      reg @ concat (map (ueTrackFills cfg e1 p1 e2 p2 R) tracks)
   \<and> distinct (map hist (ueTrackFills cfg e1 p1 e2 p2 R t))
   \<and> ueTrackFills cfg e1 p1 e2 p2 R t =
       (if passedTrackSelection cfg t \<and> \<not> outsideUeCones (eta t) (phi t) e1 p1 e2 p2 R
        then ueFills cfg t else [])
   \<and> (\<not> outsideUeCones (eta t) (phi t) e1 p1 e2 p2 R
        \<and> \<not> outsideUeCones (eta t) (phi t) e1' p1' e2' p2' R' \<longrightarrow>
      ueTrackFills cfg e1 p1 e2 p2 R t = ueTrackFills cfg e1' p1' e2' p2' R' t)
   \<and> ueTrackFills cfg e1 p1 e2 p2 R t = ueTrackFills cfg e2 p2 e1 p1 R t"
proof (intro conjI impI)
  show "ueLoop cfg e1 p1 e2 p2 R tracks reg =
      reg @ concat (map (ueTrackFills cfg e1 p1 e2 p2 R) tracks)"
    by (rule ueLoop_concat)
next
  show "distinct (map hist (ueTrackFills cfg e1 p1 e2 p2 R t))"
    by (simp add: ueTrackFills_cases distinct_hist_ueFills)
next
  show "ueTrackFills cfg e1 p1 e2 p2 R t =
       (if passedTrackSelection cfg t \<and> \<not> outsideUeCones (eta t) (phi t) e1 p1 e2 p2 R
        then ueFills cfg t else [])"
    by (rule ueTrackFills_cases)
next
  assume "\<not> outsideUeCones (eta t) (phi t) e1 p1 e2 p2 R
        \<and> \<not> outsideUeCones (eta t) (phi t) e1' p1' e2' p2' R'"
  then show "ueTrackFills cfg e1 p1 e2 p2 R t = ueTrackFills cfg e1' p1' e2' p2' R' t"
    by (simp add: ueTrackFills_cases)
next
  show "ueTrackFills cfg e1 p1 e2 p2 R t = ueTrackFills cfg e2 p2 e1 p1 R t"
    by (simp add: ueTrackFills_cases outsideUeCones_swap [of _ _ e1 p1 e2 p2])
qed

lemma example_track_selected: "passedTrackSelection default_cfg example_track"
  by (simp add: passedTrackSelection_def default_cfg_def example_track_def ratio_below_def)

lemma example_track_ueFills:
  "ueFills default_cfg example_track =
     [Fill ''antiproton_dca_ue'' (8 / 10) (1 / 100),
      Fill ''antiproton_ue_tpc'' (8 / 10) (5 / 10),
      Fill ''antiproton_ue_tof'' (8 / 10) 1,
      Fill ''antihelium3_ue_tpc'' (16 / 10) 9]"
  by (simp add: ueFills_def ueDcaFill_def ueAntimatterFills_def ueMatterFills_def
      passedItsPidProt_def passedItsPidDeut_def passedItsPidHel_def isHighPurityAntiproton_def
      default_cfg_def example_track_def Let_def)

lemma example_track_cones:
  "\<not> outsideUeCones (eta example_track) (phi example_track) (1 / 10) 1 (1 / 10) 1 (3 / 10)"
  "\<not> outsideUeCones (eta example_track) (phi example_track) (2 / 10) 1 (2 / 10) 1 (3 / 10)"
  "outsideUeCones (eta example_track) (phi example_track) (11 / 10) 1 (11 / 10) 1 (3 / 10)"
  by (simp_all add: outsideUeCones_iff example_track_def getDeltaPhi_same)

text \<open>
  The example track lies inside both cones of the first placement and inside the first
  cone only of the second placement; its fills are the same four, each histogram once.
\<close>

theorem C10_ue_cones_union_witness:
  "\<not> outsideUeCones (eta example_track) (phi example_track) (1 / 10) 1 (1 / 10) 1 (3 / 10)
   \<and> \<not> outsideUeCones (eta example_track) (phi example_track) (2 / 10) 1 (2 / 10) 1 (3 / 10)
   \<and> outsideUeCones (eta example_track) (phi example_track) (11 / 10) 1 (11 / 10) 1 (3 / 10)
   \<and> \<not> outsideUeCones (eta example_track) (phi example_track) (1 / 10) 1 (2 / 10) 1 (3 / 10)
   \<and> \<not> outsideUeCones (eta example_track) (phi example_track) (1 / 10) 1 (11 / 10) 1 (3 / 10)
   \<and> ueTrackFills default_cfg (1 / 10) 1 (2 / 10) 1 (3 / 10) example_track =
       ueTrackFills default_cfg (1 / 10) 1 (11 / 10) 1 (3 / 10) example_track
   \<and> ueTrackFills default_cfg (1 / 10) 1 (2 / 10) 1 (3 / 10) example_track =
       [Fill ''antiproton_dca_ue'' (8 / 10) (1 / 100),
        Fill ''antiproton_ue_tpc'' (8 / 10) (5 / 10),
        Fill ''antiproton_ue_tof'' (8 / 10) 1,
        Fill ''antihelium3_ue_tpc'' (16 / 10) 9]
   \<and> ueLoop default_cfg (1 / 10) 1 (2 / 10) 1 (3 / 10) [example_track] [] =
       [Fill ''antiproton_dca_ue'' (8 / 10) (1 / 100),
        Fill ''antiproton_ue_tpc'' (8 / 10) (5 / 10),
        Fill ''antiproton_ue_tof'' (8 / 10) 1,
        Fill ''antihelium3_ue_tpc'' (16 / 10) 9]"
proof -
  let ?fills = "[Fill ''antiproton_dca_ue'' (8 / 10) (1 / 100),
        Fill ''antiproton_ue_tpc'' (8 / 10) (5 / 10),
        Fill ''antiproton_ue_tof'' (8 / 10) 1,
        Fill ''antihelium3_ue_tpc'' (16 / 10) 9]"
  have a: "\<not> outsideUeCones (eta example_track) (phi example_track) (1 / 10) 1 (2 / 10) 1 (3 / 10)"
    and b: "\<not> outsideUeCones (eta example_track) (phi example_track) (1 / 10) 1 (11 / 10) 1 (3 / 10)"
    by (simp_all add: outsideUeCones_iff example_track_def getDeltaPhi_same)
  note T = C10_ue_cones_union [of default_cfg "1 / 10" 1 "2 / 10" 1 "3 / 10" "[example_track]" "[]"
        example_track "1 / 10" 1 "11 / 10" 1 "3 / 10"]
  have same:
    "ueTrackFills default_cfg (1 / 10) 1 (2 / 10) 1 (3 / 10) example_track =
       ueTrackFills default_cfg (1 / 10) 1 (11 / 10) 1 (3 / 10) example_track"
    by (rule T [THEN conjunct2, THEN conjunct2, THEN conjunct2, THEN conjunct1, THEN mp,
          OF conjI [OF a b]])
  have "ueTrackFills default_cfg (1 / 10) 1 (2 / 10) 1 (3 / 10) example_track =
       (if passedTrackSelection default_cfg example_track
           \<and> \<not> outsideUeCones (eta example_track) (phi example_track) (1 / 10) 1 (2 / 10) 1 (3 / 10)
        then ueFills default_cfg example_track else [])"
    by (rule T [THEN conjunct2, THEN conjunct2, THEN conjunct1])
  with a have val: "ueTrackFills default_cfg (1 / 10) 1 (2 / 10) 1 (3 / 10) example_track = ?fills"
    by (simp only: example_track_selected example_track_ueFills simp_thms if_True)
  have "ueLoop default_cfg (1 / 10) 1 (2 / 10) 1 (3 / 10) [example_track] [] =
      [] @ concat (map (ueTrackFills default_cfg (1 / 10) 1 (2 / 10) 1 (3 / 10)) [example_track])"
    by (rule T [THEN conjunct1])
  then have loop: "ueLoop default_cfg (1 / 10) 1 (2 / 10) 1 (3 / 10) [example_track] [] = ?fills"
    by (simp only: val list.map concat.simps append_Nil append_Nil2)
  from example_track_cones a b same val loop show ?thesis
    by (intro conjI)
qed

end
